theory Spec2Isabelle
  imports Main
begin

section \<open>Data model of \<open>frontend/src/api.ts\<close>\<close>

text \<open>
  The demonstration ("mock") scheduler of the planner front end keeps one schedule in
  memory and answers the create, complete, settings and proposal calls from it.

  Instants. The source stores every instant as an ISO-8601 string and compares the
  numbers \<open>new Date(s).getTime()\<close>, milliseconds since the epoch. The strings it stores
  are produced by \<open>toISOString()\<close>, which \<open>new Date\<close> reads back to the same number, so an
  instant is modelled by that number. Strings that do not parse as a date are outside the
  model. The numbers \<open>duration_minutes\<close> and \<open>importance\<close> are restricted to integers.

  Optional strings. \<open>payload.start ? a : b\<close> takes the second branch for \<open>undefined\<close> and
  for the empty string alike; both are \<open>None\<close> for the three optional instants of a
  payload and for the two of a settings payload. The optional \<open>event_id\<close> keeps its
  string, since the empty identifier is tested by \<open>!payload.event_id\<close>.

  Field names carry a prefix per interface (\<open>ev_\<close>, \<open>bl_\<close>, \<open>fw_\<close>, \<open>pv_\<close>, \<open>pl_\<close>, \<open>sp_\<close>)
  because several interfaces of the source share the names \<open>start\<close>, \<open>end\<close>, \<open>event_id\<close>
  and \<open>type\<close>.
\<close>

type_synonym instant = int

datatype event_type = Fixed | Flexible

record ApiEvent =
  ev_event_id :: string
  ev_type :: event_type
  ev_duration_minutes :: int
  ev_importance :: int
  ev_details :: "(string \<times> string) list"

record ApiBlock =
  bl_start :: instant
  bl_end :: instant
  bl_event_id :: string
  bl_type :: event_type
  bl_chunk_index :: "int option"
  bl_chunk_count :: "int option"

text \<open>The anonymous type \<open>{ start: string; end: string }\<close> of the free windows.\<close>

record FreeWindow =
  fw_start :: instant
  fw_end :: instant

record ApiSchedule =
  day_start :: instant
  day_end :: instant
  events :: "ApiEvent list"
  blocks :: "ApiBlock list"
  free_windows :: "FreeWindow list"

record ProposalPreview =
  pv_blocks :: "ApiBlock list"
  pv_free_windows :: "FreeWindow list"

record EventPayload =
  pl_event_id :: "string option"
  pl_type :: event_type
  pl_duration_minutes :: int
  pl_importance :: int
  pl_can_split :: "bool option"
  pl_min_chunk_minutes :: "int option"
  pl_start :: "instant option"
  pl_earliest_start :: "instant option"
  pl_latest_finish :: "instant option"

record SettingsPayload =
  sp_day_start :: "instant option"
  sp_day_end :: "instant option"

record MockState =
  schedule :: ApiSchedule

text \<open>
  The exceptions of the mock operations: \<open>mockCreateEvent\<close> throws an \<open>Error\<close> when the
  payload has no identifier, and \<open>toISOString\<close> throws a \<open>RangeError\<close> on an invalid date.
\<close>

datatype error = MissingEventId | RangeError

text \<open>
  Dates built from numbers. A \<open>Date\<close> holds a time value of at most 8.64e15 milliseconds
  in magnitude; \<open>new Date(n)\<close> for a number beyond that is an invalid date, whose
  \<open>getTime()\<close> is \<open>NaN\<close>, so that every comparison with it is false, and whose
  \<open>toISOString()\<close> throws. An instant of the model stands for a string that parses to a
  valid date; where the source builds a date from a computed number the model applies
  the range test, with \<open>None\<close> for the invalid date. On integers the floating-point sums
  and products of the source are exact wherever the result lies in the range, which is
  below \<open>2^53\<close>, and leave the range where the exact result does.
\<close>

definition maxTime :: int where
  "maxTime = 8640000000000000"

definition inRange :: "int \<Rightarrow> bool" where
  "inRange n = (- maxTime \<le> n \<and> n \<le> maxTime)"

definition newDate :: "int \<Rightarrow> instant option" where
  "newDate n = (if inRange n then Some n else None)"

section \<open>Free windows\<close>

text \<open>
  The loop of \<open>computeFreeWindows\<close> over the sorted blocks, with the cursor as an
  argument; the windows come out in the order the loop pushes them, and the window after
  the last block is the one pushed after the loop.
\<close>

fun sweep :: "instant \<Rightarrow> instant \<Rightarrow> ApiBlock list \<Rightarrow> FreeWindow list" where
  "sweep cursor endOfDay [] =
     (if cursor < endOfDay then [\<lparr>fw_start = cursor, fw_end = endOfDay\<rparr>] else [])"
| "sweep cursor endOfDay (block # rest) =
     (if bl_start block > cursor then [\<lparr>fw_start = cursor, fw_end = bl_start block\<rparr>] else [])
     @ sweep (if bl_end block > cursor then bl_end block else cursor) endOfDay rest"

text \<open>
  \<open>Array.prototype.sort\<close> with the comparator \<open>a.start - b.start\<close> is a stable sort by
  start, as \<open>sort_key\<close> is.
\<close>

definition computeFreeWindows :: "ApiSchedule \<Rightarrow> FreeWindow list" where
  "computeFreeWindows sched =
     sweep (day_start sched) (day_end sched) (sort_key bl_start (blocks sched))"

section \<open>The initial demonstration schedule\<close>

definition hour :: int where
  "hour = 60 * 60 * 1000"

text \<open>
  \<open>createMockState\<close> reads the clock. Its parameter here is the instant of 08:00 local
  time of the current day, the value of \<open>dayStart\<close>; the other instants are taken at
  their distance from it (no change of the local UTC offset between 08:00 and 20:00).
\<close>

definition createMockState :: "instant \<Rightarrow> MockState" where
  "createMockState dayStart =
     (let dayEnd = dayStart + 12 * hour;
          trainingStart = dayStart + 2 * hour;
          trainingEnd = trainingStart + 60 * 60 * 1000;
          lectureStart = dayStart + 5 * hour;
          lectureEnd = lectureStart + 90 * 60 * 1000;
          sched = \<lparr>day_start = dayStart, day_end = dayEnd,
            events =
              [\<lparr>ev_event_id = ''training'', ev_type = Fixed, ev_duration_minutes = 60,
                ev_importance = 1, ev_details = []\<rparr>,
               \<lparr>ev_event_id = ''lecture'', ev_type = Fixed, ev_duration_minutes = 90,
                ev_importance = 1, ev_details = []\<rparr>],
            blocks =
              [\<lparr>bl_start = trainingStart, bl_end = trainingEnd, bl_event_id = ''training'',
                bl_type = Fixed, bl_chunk_index = None, bl_chunk_count = None\<rparr>,
               \<lparr>bl_start = lectureStart, bl_end = lectureEnd, bl_event_id = ''lecture'',
                bl_type = Fixed, bl_chunk_index = None, bl_chunk_count = None\<rparr>],
            free_windows = []\<rparr>
      in \<lparr>schedule = sched\<lparr>free_windows := computeFreeWindows sched\<rparr>\<rparr>)"

section \<open>Placement of a flexible event\<close>

text \<open>
  The \<open>for\<close> loop of \<open>placeFlexibleEvent\<close>: the first window, in list order, in which the
  candidate fits, or \<open>None\<close> when the loop ends without returning. A candidate whose
  start or end is an invalid date fails both comparisons and the window is skipped.
\<close>

fun scanWindows :: "int \<Rightarrow> instant \<Rightarrow> instant \<Rightarrow> FreeWindow list \<Rightarrow> (instant \<times> instant) option" where
  "scanWindows durationMs earliest latest [] = None"
| "scanWindows durationMs earliest latest (window # rest) =
     (case newDate (max (fw_start window) earliest) of
        None \<Rightarrow> scanWindows durationMs earliest latest rest
      | Some candidateStart \<Rightarrow>
          (case newDate (candidateStart + durationMs) of
             None \<Rightarrow> scanWindows durationMs earliest latest rest
           | Some candidateEnd \<Rightarrow>
               if candidateEnd \<le> fw_end window \<and> candidateEnd \<le> latest
               then Some (candidateStart, candidateEnd)
               else scanWindows durationMs earliest latest rest))"

text \<open>The three constants \<open>placeFlexibleEvent\<close> computes before its loop.\<close>

definition durationMs :: "EventPayload \<Rightarrow> int" where
  "durationMs payload = pl_duration_minutes payload * 60 * 1000"

definition earliest :: "EventPayload \<Rightarrow> ApiSchedule \<Rightarrow> instant" where
  "earliest payload sched =
     (case pl_earliest_start payload of Some e \<Rightarrow> e | None \<Rightarrow> day_start sched)"

definition latest :: "EventPayload \<Rightarrow> ApiSchedule \<Rightarrow> instant" where
  "latest payload sched =
     (case pl_latest_finish payload of Some l \<Rightarrow> l | None \<Rightarrow> day_end sched)"

text \<open>
  After the loop the source places the event right behind the last block of the block
  list, or at the start of the day when there is no block.
\<close>

definition fallbackStart :: "ApiSchedule \<Rightarrow> instant" where
  "fallbackStart sched =
     (if blocks sched \<noteq> [] then bl_end (last (blocks sched)) else day_start sched)"

text \<open>
  The fallback returns \<open>fallbackEnd.toISOString()\<close>, which throws when the end is an
  invalid date.
\<close>

definition placeFlexibleEvent :: "EventPayload \<Rightarrow> ApiSchedule \<Rightarrow> error + instant \<times> instant" where
  "placeFlexibleEvent payload sched =
     (case scanWindows (durationMs payload) (earliest payload sched) (latest payload sched)
             (free_windows sched) of
        Some placement \<Rightarrow> Inr placement
      | None \<Rightarrow>
          (case newDate (fallbackStart sched + durationMs payload) of
             Some fallbackEnd \<Rightarrow> Inr (fallbackStart sched, fallbackEnd)
           | None \<Rightarrow> Inl RangeError))"

section \<open>The operations on the mock state\<close>

text \<open>
  Every operation takes the state and returns its result with the state after it. The
  schedule an operation returns is a deep copy (\<open>clone\<close>) of the schedule it leaves in
  the state, the same value here.
\<close>

text \<open>
  The block \<open>mockCreateEvent\<close> builds for the payload (its \<open>let block\<close>). For a fixed
  event \<open>end.toISOString()\<close> throws when the end is an invalid date; for a flexible one
  the exception of \<open>placeFlexibleEvent\<close> passes through.
\<close>

definition eventBlock :: "EventPayload \<Rightarrow> string \<Rightarrow> ApiSchedule \<Rightarrow> error + ApiBlock" where
  "eventBlock payload eid sched =
     (case pl_type payload of
        Fixed \<Rightarrow>
          (let start = (case pl_start payload of Some s \<Rightarrow> s | None \<Rightarrow> day_start sched)
           in case newDate (start + pl_duration_minutes payload * 60 * 1000) of
                Some end \<Rightarrow>
                  Inr \<lparr>bl_start = start, bl_end = end, bl_event_id = eid, bl_type = Fixed,
                    bl_chunk_index = None, bl_chunk_count = None\<rparr>
              | None \<Rightarrow> Inl RangeError)
      | Flexible \<Rightarrow>
          (case placeFlexibleEvent payload sched of
             Inr placement \<Rightarrow>
               Inr \<lparr>bl_start = fst placement, bl_end = snd placement, bl_event_id = eid,
                 bl_type = Flexible, bl_chunk_index = None, bl_chunk_count = None\<rparr>
           | Inl err \<Rightarrow> Inl err))"

text \<open>
  The block is built before the schedule is touched, so a create that throws leaves the
  state as it was.
\<close>

definition mockCreateEvent :: "EventPayload \<Rightarrow> MockState \<Rightarrow> (error + ApiSchedule) \<times> MockState" where
  "mockCreateEvent payload st =
     (case pl_event_id payload of
        None \<Rightarrow> (Inl MissingEventId, st)
      | Some eid \<Rightarrow>
          if eid = [] then (Inl MissingEventId, st)
          else
            (let sched = schedule st;
                 baseEvent = \<lparr>ev_event_id = eid, ev_type = pl_type payload,
                   ev_duration_minutes = pl_duration_minutes payload,
                   ev_importance = pl_importance payload, ev_details = []\<rparr>
             in case eventBlock payload eid sched of
                  Inl err \<Rightarrow> (Inl err, st)
                | Inr block \<Rightarrow>
                    (let sched1 = sched\<lparr>events :=
                           filter (\<lambda>event. ev_event_id event \<noteq> eid) (events sched) @ [baseEvent]\<rparr>;
                         sched2 = sched1\<lparr>blocks :=
                           sort_key bl_start
                             (filter (\<lambda>existing. bl_event_id existing \<noteq> eid) (blocks sched1)
                                @ [block])\<rparr>;
                         sched3 = sched2\<lparr>free_windows := computeFreeWindows sched2\<rparr>
                     in (Inr sched3, st\<lparr>schedule := sched3\<rparr>))))"

definition mockCompleteEvent :: "string \<Rightarrow> MockState \<Rightarrow> ApiSchedule \<times> MockState" where
  "mockCompleteEvent eventId st =
     (let sched = schedule st;
          sched1 = sched\<lparr>events := filter (\<lambda>event. ev_event_id event \<noteq> eventId) (events sched)\<rparr>;
          sched2 = sched1\<lparr>blocks := filter (\<lambda>block. bl_event_id block \<noteq> eventId) (blocks sched1)\<rparr>;
          sched3 = sched2\<lparr>free_windows := computeFreeWindows sched2\<rparr>
      in (sched3, st\<lparr>schedule := sched3\<rparr>))"

definition mockUpdateSettings :: "SettingsPayload \<Rightarrow> MockState \<Rightarrow> ApiSchedule \<times> MockState" where
  "mockUpdateSettings payload st =
     (let sched = schedule st;
          sched1 = (case sp_day_start payload of Some d \<Rightarrow> sched\<lparr>day_start := d\<rparr> | None \<Rightarrow> sched);
          sched2 = (case sp_day_end payload of Some d \<Rightarrow> sched1\<lparr>day_end := d\<rparr> | None \<Rightarrow> sched1);
          sched3 = sched2\<lparr>free_windows := computeFreeWindows sched2\<rparr>
      in (sched3, st\<lparr>schedule := sched3\<rparr>))"

definition mockProposal :: "EventPayload \<Rightarrow> MockState \<Rightarrow> (error + ProposalPreview) \<times> MockState" where
  "mockProposal payload st =
     (let sched = schedule st
      in if pl_type payload = Flexible
         then
           (case placeFlexibleEvent payload sched of
              Inl err \<Rightarrow> (Inl err, st)
            | Inr placement \<Rightarrow>
                (Inr \<lparr>pv_blocks =
                   [\<lparr>bl_start = fst placement, bl_end = snd placement,
                     bl_event_id = (case pl_event_id payload of Some eid \<Rightarrow> eid | None \<Rightarrow> ''proposal''),
                     bl_type = Flexible, bl_chunk_index = None, bl_chunk_count = None\<rparr>],
                 pv_free_windows = free_windows sched\<rparr>, st))
         else (Inr \<lparr>pv_blocks = [], pv_free_windows = free_windows sched\<rparr>, st))"

text \<open>
  The states the mock can be in: the initial one, and every state an operation leaves
  behind. A create that throws leaves the state as it was.
\<close>

inductive reachable :: "MockState \<Rightarrow> bool" where
  init: "reachable (createMockState t)"
| create: "reachable st \<Longrightarrow> reachable (snd (mockCreateEvent payload st))"
| complete: "reachable st \<Longrightarrow> reachable (snd (mockCompleteEvent eventId st))"
| settings: "reachable st \<Longrightarrow> reachable (snd (mockUpdateSettings payload st))"

section \<open>Predicates used to state the properties\<close>


text \<open>
  The test of the loop of \<open>placeFlexibleEvent\<close>: the candidate, started at the later
  of the start of the window and the earliest start, has valid dates for its start and
  its end, and ends within the window and by the latest finish.
\<close>

definition qualifies :: "int \<Rightarrow> instant \<Rightarrow> instant \<Rightarrow> FreeWindow \<Rightarrow> bool" where
  "qualifies d e l window =
     (inRange (max (fw_start window) e) \<and> inRange (max (fw_start window) e + d) \<and>
      max (fw_start window) e + d \<le> fw_end window \<and> max (fw_start window) e + d \<le> l)"

text \<open>The loop of \<open>placeFlexibleEvent\<close> returns: some free window takes the candidate.\<close>

definition fitsWindow :: "EventPayload \<Rightarrow> ApiSchedule \<Rightarrow> bool" where
  "fitsWindow payload sched =
     (scanWindows (durationMs payload) (earliest payload sched) (latest payload sched)
        (free_windows sched) \<noteq> None)"

text \<open>
  The end of the block a create would build is a valid date: for a fixed event the
  declared start (the start of the day when none is declared) plus the duration, for a
  flexible event the end in a free window that takes it or else the end of the fallback.
\<close>

definition blockEndValid :: "EventPayload \<Rightarrow> ApiSchedule \<Rightarrow> bool" where
  "blockEndValid payload sched =
     (case pl_type payload of
        Fixed \<Rightarrow>
          inRange ((case pl_start payload of Some s \<Rightarrow> s | None \<Rightarrow> day_start sched)
                   + pl_duration_minutes payload * 60 * 1000)
      | Flexible \<Rightarrow>
          fitsWindow payload sched \<or> inRange (fallbackStart sched + durationMs payload))"



text \<open>
  No identifier occurs twice among the events or among the blocks, and the events and
  the blocks carry the same identifiers.
\<close>

definition uniqueIds :: "MockState \<Rightarrow> bool" where
  "uniqueIds st =
     (distinct (map ev_event_id (events (schedule st))) \<and>
      distinct (map bl_event_id (blocks (schedule st))) \<and>
      set (map ev_event_id (events (schedule st))) = set (map bl_event_id (blocks (schedule st))))"

section \<open>Example inputs\<close>

text \<open>All examples start from the initial schedule of the day whose 08:00 is instant 0.\<close>

text \<open>A fixed event from 15:00 that lasts minus sixty minutes.\<close>

definition invertedPayload :: EventPayload where
  "invertedPayload = \<lparr>pl_event_id = Some ''x'', pl_type = Fixed, pl_duration_minutes = - 60,
     pl_importance = 1, pl_can_split = None, pl_min_chunk_minutes = None,
     pl_start = Some (7 * hour), pl_earliest_start = None, pl_latest_finish = None\<rparr>"

text \<open>The end of the day moved from 20:00 to 12:00, before the lecture.\<close>

definition shorterDay :: SettingsPayload where
  "shorterDay = \<lparr>sp_day_start = None, sp_day_end = Some (4 * hour)\<rparr>"

text \<open>A fixed event from 10:00 to 11:00, the hour of the training.\<close>

definition conflictPayload :: EventPayload where
  "conflictPayload = \<lparr>pl_event_id = Some ''x'', pl_type = Fixed, pl_duration_minutes = 60,
     pl_importance = 1, pl_can_split = None, pl_min_chunk_minutes = None,
     pl_start = Some (2 * hour), pl_earliest_start = None, pl_latest_finish = None\<rparr>"

text \<open>A flexible event of one hour with no bounds of its own: it fits 08:00 to 09:00.\<close>

definition fittingPayload :: EventPayload where
  "fittingPayload = \<lparr>pl_event_id = Some ''walk'', pl_type = Flexible, pl_duration_minutes = 60,
     pl_importance = 1, pl_can_split = Some False, pl_min_chunk_minutes = Some 30,
     pl_start = None, pl_earliest_start = None, pl_latest_finish = None\<rparr>"

text \<open>A flexible half hour under the identifier of the training.\<close>

definition duplicatePayload :: EventPayload where
  "duplicatePayload = \<lparr>pl_event_id = Some ''training'', pl_type = Flexible, pl_duration_minutes = 30,
     pl_importance = 2, pl_can_split = Some False, pl_min_chunk_minutes = Some 30,
     pl_start = None, pl_earliest_start = None, pl_latest_finish = None\<rparr>"

text \<open>
  Six splittable hours with chunks of thirty minutes or more; the free windows of the
  initial schedule are two hours, two hours and five and a half hours long.
\<close>

definition splitPayload :: EventPayload where
  "splitPayload = \<lparr>pl_event_id = Some ''big'', pl_type = Flexible, pl_duration_minutes = 360,
     pl_importance = 1, pl_can_split = Some True, pl_min_chunk_minutes = Some 30,
     pl_start = None, pl_earliest_start = None, pl_latest_finish = None\<rparr>"

text \<open>A fixed candidate from 15:00 to 16:00.\<close>

definition fixedCandidate :: EventPayload where
  "fixedCandidate = \<lparr>pl_event_id = Some ''call'', pl_type = Fixed, pl_duration_minutes = 60,
     pl_importance = 1, pl_can_split = Some False, pl_min_chunk_minutes = Some 30,
     pl_start = Some (7 * hour), pl_earliest_start = None, pl_latest_finish = None\<rparr>"

text \<open>Two unsplittable hours to be placed between 09:00 and 12:00.\<close>

definition deepWorkPayload :: EventPayload where
  "deepWorkPayload = \<lparr>pl_event_id = Some ''deep-work'', pl_type = Flexible, pl_duration_minutes = 120,
     pl_importance = 1, pl_can_split = Some False, pl_min_chunk_minutes = Some 30,
     pl_start = None, pl_earliest_start = Some (1 * hour), pl_latest_finish = Some (4 * hour)\<rparr>"




text \<open>
  A fixed event from the start of the day, and a flexible event, whose duration of
  144000000001 minutes is more than a date can hold.
\<close>

definition overflowFixed :: EventPayload where
  "overflowFixed = \<lparr>pl_event_id = Some ''over'', pl_type = Fixed,
     pl_duration_minutes = 144000000001,
     pl_importance = 1, pl_can_split = None, pl_min_chunk_minutes = None,
     pl_start = None, pl_earliest_start = None, pl_latest_finish = None\<rparr>"

definition overflowFlexible :: EventPayload where
  "overflowFlexible = \<lparr>pl_event_id = Some ''training'', pl_type = Flexible,
     pl_duration_minutes = 144000000001,
     pl_importance = 1, pl_can_split = Some True, pl_min_chunk_minutes = Some 30,
     pl_start = None, pl_earliest_start = None, pl_latest_finish = None\<rparr>"



section \<open>Properties of the sweep\<close>

lemma sweep_start_ge: "w \<in> set (sweep c e bs) \<Longrightarrow> c \<le> fw_start w"
  by (induction bs arbitrary: c) (fastforce split: if_splits)+

lemma sweep_nonempty: "w \<in> set (sweep c e bs) \<Longrightarrow> fw_start w < fw_end w"
  by (induction bs arbitrary: c) (auto split: if_splits)

lemma sweep_sorted: "sorted (map fw_start (sweep c e bs))"
  by (induction bs arbitrary: c) (auto simp: sorted_append dest: sweep_start_ge split: if_splits)


text \<open>
  When no block ends before it starts, each window of the sweep ends at or before the
  start of every later one.
\<close>

lemma sweep_chain:
  "\<forall>b\<in>set bs. bl_start b \<le> bl_end b \<Longrightarrow>
   sorted_wrt (\<lambda>v w. fw_end v \<le> fw_start w) (sweep c e bs)"
proof (induction bs arbitrary: c)
  case Nil
  then show ?case by simp
next
  case (Cons a bs)
  let ?c' = "if bl_end a > c then bl_end a else c"
  have "sorted_wrt (\<lambda>v w. fw_end v \<le> fw_start w) (sweep ?c' e bs)"
    using Cons by simp
  moreover have "\<forall>w\<in>set (sweep ?c' e bs). bl_start a \<le> fw_start w"
    using Cons.prems sweep_start_ge[of _ ?c' e bs] by (fastforce split: if_splits)
  ultimately show ?case
    by (simp add: sorted_wrt_append)
qed

section \<open>The computed free windows\<close>

lemma computeFreeWindows_nonempty:
  "w \<in> set (computeFreeWindows sched) \<Longrightarrow> fw_start w < fw_end w"
  unfolding computeFreeWindows_def by (rule sweep_nonempty)

lemma computeFreeWindows_sorted: "sorted (map fw_start (computeFreeWindows sched))"
  unfolding computeFreeWindows_def by (rule sweep_sorted)

lemma computeFreeWindows_chain:
  "\<forall>b\<in>set (blocks sched). bl_start b \<le> bl_end b \<Longrightarrow>
   sorted_wrt (\<lambda>v w. fw_end v \<le> fw_start w) (computeFreeWindows sched)"
  unfolding computeFreeWindows_def by (rule sweep_chain) simp


text \<open>
  Claim C9, amended. When no block of the schedule ends before it starts, every free
  window the computation emits starts strictly before it ends, no two emitted windows
  meet, and the starts of the emitted windows increase strictly, whatever the order of
  the blocks and whether or not they touch, nest or overlap. The bounds of the day may
  be any two instants.
\<close>

theorem computeFreeWindows_disjoint_increasing:
  assumes "\<forall>b\<in>set (blocks sched). bl_start b \<le> bl_end b"
  shows "(\<forall>w\<in>set (computeFreeWindows sched). fw_start w < fw_end w) \<and>
    (\<forall>i j. i < j \<and> j < length (computeFreeWindows sched) \<longrightarrow>
       \<not> (fw_start (computeFreeWindows sched ! i) < fw_end (computeFreeWindows sched ! j) \<and>
          fw_start (computeFreeWindows sched ! j) < fw_end (computeFreeWindows sched ! i))) \<and>
    sorted_wrt (<) (map fw_start (computeFreeWindows sched))"
proof -
  let ?ws = "computeFreeWindows sched"
  have ne: "\<forall>w\<in>set ?ws. fw_start w < fw_end w"
    by (simp add: computeFreeWindows_nonempty)
  have chain: "\<forall>i j. i < j \<longrightarrow> j < length ?ws \<longrightarrow> fw_end (?ws ! i) \<le> fw_start (?ws ! j)"
    using computeFreeWindows_chain [OF assms] by (simp add: sorted_wrt_iff_nth_less)
  have disj: "\<forall>i j. i < j \<and> j < length ?ws \<longrightarrow>
       \<not> (fw_start (?ws ! i) < fw_end (?ws ! j) \<and> fw_start (?ws ! j) < fw_end (?ws ! i))"
    using chain by fastforce
  have "\<forall>i j. i < j \<longrightarrow> j < length ?ws \<longrightarrow> fw_start (?ws ! i) < fw_start (?ws ! j)"
  proof (intro allI impI)
    fix i j assume ij: "i < j" "j < length ?ws"
    then have "fw_start (?ws ! i) < fw_end (?ws ! i)" using ne by simp
    also have "fw_end (?ws ! i) \<le> fw_start (?ws ! j)" using chain ij by simp
    finally show "fw_start (?ws ! i) < fw_start (?ws ! j)" .
  qed
  then have incr: "sorted_wrt (<) (map fw_start ?ws)"
    by (simp add: sorted_wrt_iff_nth_less)
  from ne disj incr show ?thesis by blast
qed

text \<open>The two blocks of the initial schedule are well formed.\<close>

theorem computeFreeWindows_disjoint_increasing_witness:
  "computeFreeWindows (schedule (createMockState 0)) =
     [\<lparr>fw_start = 0, fw_end = 7200000\<rparr>, \<lparr>fw_start = 10800000, fw_end = 18000000\<rparr>,
      \<lparr>fw_start = 23400000, fw_end = 43200000\<rparr>] \<and>
   \<not> (fw_start (computeFreeWindows (schedule (createMockState 0)) ! 0)
        < fw_end (computeFreeWindows (schedule (createMockState 0)) ! 1) \<and>
      fw_start (computeFreeWindows (schedule (createMockState 0)) ! 1)
        < fw_end (computeFreeWindows (schedule (createMockState 0)) ! 0)) \<and>
   sorted_wrt (<) (map fw_start (computeFreeWindows (schedule (createMockState 0))))"
proof -
  have h: "\<forall>b\<in>set (blocks (schedule (createMockState 0))). bl_start b \<le> bl_end b"
    by (simp add: createMockState_def hour_def Let_def)
  have ws: "computeFreeWindows (schedule (createMockState 0)) =
     [\<lparr>fw_start = 0, fw_end = 7200000\<rparr>, \<lparr>fw_start = 10800000, fw_end = 18000000\<rparr>,
      \<lparr>fw_start = 23400000, fw_end = 43200000\<rparr>]"
    by (simp add: createMockState_def computeFreeWindows_def hour_def Let_def)
  then have len: "(0::nat) < 1 \<and> 1 < length (computeFreeWindows (schedule (createMockState 0)))"
    by simp
  note inst = computeFreeWindows_disjoint_increasing [OF h]
  from inst len
  have "\<not> (fw_start (computeFreeWindows (schedule (createMockState 0)) ! 0)
        < fw_end (computeFreeWindows (schedule (createMockState 0)) ! 1) \<and>
      fw_start (computeFreeWindows (schedule (createMockState 0)) ! 1)
        < fw_end (computeFreeWindows (schedule (createMockState 0)) ! 0))"
    by blast
  moreover from inst
  have "sorted_wrt (<) (map fw_start (computeFreeWindows (schedule (createMockState 0))))"
    by blast
  ultimately show ?thesis using ws by blast
qed

text \<open>
  Claim C9 as stated fails for a block that ends before it starts. A fixed event created
  at 15:00 with a duration of minus sixty minutes gives the block from 15:00 to 14:00;
  the computation then emits the windows 14:30 to 15:00 and 14:30 to 20:00, which
  overlap and start at the same instant.
\<close>

theorem computeFreeWindows_inverted_block_counterexample:
  "day_start (schedule (snd (mockCreateEvent invertedPayload (createMockState 0))))
     < day_end (schedule (snd (mockCreateEvent invertedPayload (createMockState 0)))) \<and>
   computeFreeWindows (schedule (snd (mockCreateEvent invertedPayload (createMockState 0)))) =
     [\<lparr>fw_start = 0, fw_end = 7200000\<rparr>, \<lparr>fw_start = 10800000, fw_end = 18000000\<rparr>,
      \<lparr>fw_start = 23400000, fw_end = 25200000\<rparr>, \<lparr>fw_start = 23400000, fw_end = 43200000\<rparr>] \<and>
   fw_start (computeFreeWindows (schedule (snd (mockCreateEvent invertedPayload (createMockState 0)))) ! 2)
     < fw_end (computeFreeWindows (schedule (snd (mockCreateEvent invertedPayload (createMockState 0)))) ! 3) \<and>
   fw_start (computeFreeWindows (schedule (snd (mockCreateEvent invertedPayload (createMockState 0)))) ! 3)
     < fw_end (computeFreeWindows (schedule (snd (mockCreateEvent invertedPayload (createMockState 0)))) ! 2) \<and>
   \<not> fw_start (computeFreeWindows (schedule (snd (mockCreateEvent invertedPayload (createMockState 0)))) ! 2)
     < fw_start (computeFreeWindows (schedule (snd (mockCreateEvent invertedPayload (createMockState 0)))) ! 3)"
proof -
  have w: "computeFreeWindows (schedule (snd (mockCreateEvent invertedPayload (createMockState 0)))) =
     [\<lparr>fw_start = 0, fw_end = 7200000\<rparr>, \<lparr>fw_start = 10800000, fw_end = 18000000\<rparr>,
      \<lparr>fw_start = 23400000, fw_end = 25200000\<rparr>, \<lparr>fw_start = 23400000, fw_end = 43200000\<rparr>]"
    by (simp add: mockCreateEvent_def invertedPayload_def createMockState_def eventBlock_def
        newDate_def inRange_def maxTime_def computeFreeWindows_def hour_def Let_def)
  have d: "day_start (schedule (snd (mockCreateEvent invertedPayload (createMockState 0))))
     < day_end (schedule (snd (mockCreateEvent invertedPayload (createMockState 0))))"
    by (simp add: mockCreateEvent_def invertedPayload_def createMockState_def eventBlock_def
        newDate_def inRange_def maxTime_def hour_def Let_def)
  show ?thesis using d by (simp add: w)
qed

section \<open>Coverage of the day\<close>

lemma sweep_cover:
  "sorted (map bl_start bs) \<Longrightarrow> \<forall>b\<in>set bs. bl_start b \<le> e \<Longrightarrow>
   (\<Union>w\<in>set (sweep c e bs). {fw_start w..<fw_end w}) =
   {c..<e} - (\<Union>b\<in>set bs. {bl_start b..<bl_end b})"
proof (induction bs arbitrary: c)
  case Nil
  then show ?case by auto
next
  case (Cons a bs)
  let ?c' = "if bl_end a > c then bl_end a else c"
  have IH: "(\<Union>w\<in>set (sweep ?c' e bs). {fw_start w..<fw_end w}) =
    {?c'..<e} - (\<Union>b\<in>set bs. {bl_start b..<bl_end b})"
    using Cons by simp
  have later: "\<forall>b\<in>set bs. bl_start a \<le> bl_start b" using Cons.prems(1) by simp
  have ae: "bl_start a \<le> e" using Cons.prems(2) by simp
  have "(\<Union>w\<in>set (sweep c e (a # bs)). {fw_start w..<fw_end w}) =
     (if bl_start a > c then {c..<bl_start a} else {}) \<union>
     ({?c'..<e} - (\<Union>b\<in>set bs. {bl_start b..<bl_end b}))"
    using IH by (simp split: if_splits)
  also have "\<dots> = {c..<e} - (\<Union>b\<in>set (a # bs). {bl_start b..<bl_end b})"
    using later ae by (auto split: if_splits)
  finally show ?case .
qed

lemma sweep_gap:
  "\<forall>b\<in>set bs. bl_start b < bl_end b \<Longrightarrow>
   sorted_wrt (\<lambda>v w. fw_end v < fw_start w) (sweep c e bs)"
proof (induction bs arbitrary: c)
  case Nil
  then show ?case by simp
next
  case (Cons a bs)
  let ?c' = "if bl_end a > c then bl_end a else c"
  have "sorted_wrt (\<lambda>v w. fw_end v < fw_start w) (sweep ?c' e bs)"
    using Cons by simp
  moreover have "\<forall>w\<in>set (sweep ?c' e bs). bl_start a < fw_start w"
    using Cons.prems sweep_start_ge[of _ ?c' e bs] by (fastforce split: if_splits)
  ultimately show ?case
    by (simp add: sorted_wrt_append)
qed

text \<open>
  What the computation does get right: when no block starts after the end of the day,
  the windows cover the day without the blocks, and when moreover every block starts
  before it ends, no window ends where the next one starts.
\<close>

lemma computeFreeWindows_cover:
  "\<forall>b\<in>set (blocks sched). bl_start b \<le> day_end sched \<Longrightarrow>
   (\<Union>w\<in>set (computeFreeWindows sched). {fw_start w..<fw_end w}) =
   {day_start sched..<day_end sched} - (\<Union>b\<in>set (blocks sched). {bl_start b..<bl_end b})"
  unfolding computeFreeWindows_def
  using sweep_cover [of "sort_key bl_start (blocks sched)" "day_end sched" "day_start sched"]
  by simp

lemma computeFreeWindows_gap:
  "\<forall>b\<in>set (blocks sched). bl_start b < bl_end b \<Longrightarrow>
   sorted_wrt (\<lambda>v w. fw_end v < fw_start w) (computeFreeWindows sched)"
  unfolding computeFreeWindows_def by (rule sweep_gap) simp

text \<open>
  Claim C4. The free windows should be the day without the blocks. After the end of
  the day is moved to 12:00 in the initial schedule, the lecture block starts after the
  end of the day, and the computation emits the window from 11:00 to 13:00, one hour of
  which lies after the end of the day; the day without the blocks is 08:00 to 10:00 and
  11:00 to 12:00. The loop bounds only the window it pushes after the last block by the
  end of the day, not the windows it pushes before a block.
\<close>

theorem computeFreeWindows_past_day_end:
  "day_start (schedule (snd (mockUpdateSettings shorterDay (createMockState 0)))) = 0 \<and>
   day_end (schedule (snd (mockUpdateSettings shorterDay (createMockState 0)))) = 14400000 \<and>
   map (\<lambda>b. (bl_start b, bl_end b))
     (blocks (schedule (snd (mockUpdateSettings shorterDay (createMockState 0))))) =
     [(7200000, 10800000), (18000000, 23400000)] \<and>
   computeFreeWindows (schedule (snd (mockUpdateSettings shorterDay (createMockState 0)))) =
     [\<lparr>fw_start = 0, fw_end = 7200000\<rparr>, \<lparr>fw_start = 10800000, fw_end = 18000000\<rparr>]"
  by (simp add: mockUpdateSettings_def shorterDay_def createMockState_def computeFreeWindows_def
      hour_def Let_def)

section \<open>Completing an event\<close>

text \<open>
  Claim C8. Completing an event whose identifier is in the schedule removes the event
  and every block that refers to it, keeps the other events and blocks and the bounds of
  the day, and leaves the free windows computed from the remaining blocks; the schedule
  returned is the one left in the state. In the initial schedule (day from 08:00 to
  20:00, "training" from 10:00 to 11:00, "lecture" from 13:00 to 14:30) completing
  "training" leaves the free windows 08:00 to 13:00 and 14:30 to 20:00. The instant
  \<open>t\<close> is 08:00 of the day.
\<close>

theorem mockCompleteEvent_removes:
  "eventId \<in> set (map ev_event_id (events (schedule st))) \<Longrightarrow>
   (let s = schedule st; s' = schedule (snd (mockCompleteEvent eventId st)) in
      fst (mockCompleteEvent eventId st) = s' \<and>
      events s' = filter (\<lambda>e. ev_event_id e \<noteq> eventId) (events s) \<and>
      blocks s' = filter (\<lambda>b. bl_event_id b \<noteq> eventId) (blocks s) \<and>
      eventId \<notin> set (map ev_event_id (events s')) \<and>
      eventId \<notin> set (map bl_event_id (blocks s')) \<and>
      free_windows s' = computeFreeWindows s' \<and>
      day_start s' = day_start s \<and> day_end s' = day_end s) \<and>
   free_windows (fst (mockCompleteEvent ''training'' (createMockState t))) =
     [\<lparr>fw_start = t, fw_end = t + 5 * hour\<rparr>,
      \<lparr>fw_start = t + 5 * hour + 90 * 60 * 1000, fw_end = t + 12 * hour\<rparr>]"
proof (rule conjI)
  assume "eventId \<in> set (map ev_event_id (events (schedule st)))"
  then show "let s = schedule st; s' = schedule (snd (mockCompleteEvent eventId st)) in
      fst (mockCompleteEvent eventId st) = s' \<and>
      events s' = filter (\<lambda>e. ev_event_id e \<noteq> eventId) (events s) \<and>
      blocks s' = filter (\<lambda>b. bl_event_id b \<noteq> eventId) (blocks s) \<and>
      eventId \<notin> set (map ev_event_id (events s')) \<and>
      eventId \<notin> set (map bl_event_id (blocks s')) \<and>
      free_windows s' = computeFreeWindows s' \<and>
      day_start s' = day_start s \<and> day_end s' = day_end s"
    by (auto simp add: mockCompleteEvent_def Let_def computeFreeWindows_def)
next
  show "free_windows (fst (mockCompleteEvent ''training'' (createMockState t))) =
     [\<lparr>fw_start = t, fw_end = t + 5 * hour\<rparr>,
      \<lparr>fw_start = t + 5 * hour + 90 * 60 * 1000, fw_end = t + 12 * hour\<rparr>]"
    by (simp add: mockCompleteEvent_def createMockState_def computeFreeWindows_def hour_def Let_def)
qed

theorem mockCompleteEvent_removes_witness:
  "''training'' \<in> set (map ev_event_id (events (schedule (createMockState 0)))) \<and>
   ((let s = schedule (createMockState 0);
         s' = schedule (snd (mockCompleteEvent ''training'' (createMockState 0))) in
      fst (mockCompleteEvent ''training'' (createMockState 0)) = s' \<and>
      events s' = filter (\<lambda>e. ev_event_id e \<noteq> ''training'') (events s) \<and>
      blocks s' = filter (\<lambda>b. bl_event_id b \<noteq> ''training'') (blocks s) \<and>
      ''training'' \<notin> set (map ev_event_id (events s')) \<and>
      ''training'' \<notin> set (map bl_event_id (blocks s')) \<and>
      free_windows s' = computeFreeWindows s' \<and>
      day_start s' = day_start s \<and> day_end s' = day_end s) \<and>
   free_windows (fst (mockCompleteEvent ''training'' (createMockState 0))) =
     [\<lparr>fw_start = 0, fw_end = 0 + 5 * hour\<rparr>,
      \<lparr>fw_start = 0 + 5 * hour + 90 * 60 * 1000, fw_end = 0 + 12 * hour\<rparr>])"
proof -
  have h: "''training'' \<in> set (map ev_event_id (events (schedule (createMockState 0))))"
    by (simp add: createMockState_def Let_def)
  show ?thesis
    by (rule conjI [OF h mockCompleteEvent_removes [OF h]])
qed

section \<open>What a create builds and leaves\<close>

lemma newDate_Some: "(newDate n = Some m) = (inRange n \<and> m = n)"
  by (auto simp: newDate_def)

lemma newDate_None: "(newDate n = None) = (\<not> inRange n)"
  by (simp add: newDate_def)

lemma scanWindows_Some:
  "scanWindows d e l ws = Some (s, f) \<Longrightarrow>
   \<exists>w\<in>set ws. fw_start w \<le> s \<and> f \<le> fw_end w \<and> f = s + d"
  by (induction ws) (auto simp: newDate_def split: if_splits)

lemma scanWindows_first:
  "scanWindows d e l ws = Some p \<Longrightarrow>
   \<exists>i<length ws. (\<forall>j<i. \<not> qualifies d e l (ws ! j)) \<and> qualifies d e l (ws ! i) \<and>
     p = (max (fw_start (ws ! i)) e, max (fw_start (ws ! i)) e + d)"
proof (induction ws)
  case Nil
  then show ?case by simp
next
  case (Cons w ws)
  show ?case
  proof (cases "qualifies d e l w")
    case True
    with Cons.prems have "p = (max (fw_start w) e, max (fw_start w) e + d)"
      by (auto simp: qualifies_def newDate_def)
    with True show ?thesis by (intro exI [of _ 0]) simp
  next
    case False
    with Cons.prems have "scanWindows d e l ws = Some p"
      by (auto simp: qualifies_def newDate_def split: if_splits)
    from Cons.IH [OF this] obtain i where i: "i < length ws"
      "\<forall>j<i. \<not> qualifies d e l (ws ! j)" "qualifies d e l (ws ! i)"
      "p = (max (fw_start (ws ! i)) e, max (fw_start (ws ! i)) e + d)" by blast
    have "\<forall>j<Suc i. \<not> qualifies d e l ((w # ws) ! j)"
      using False i(2) by (auto simp: less_Suc_eq_0_disj)
    with i show ?thesis by (intro exI [of _ "Suc i"]) simp
  qed
qed

lemma scanWindows_None:
  "(scanWindows d e l ws = None) = (\<forall>w\<in>set ws. \<not> qualifies d e l w)"
  by (induction ws) (auto simp: qualifies_def newDate_def)

lemma placeFlexibleEvent_fit:
  "scanWindows (durationMs payload) (earliest payload sched) (latest payload sched)
     (free_windows sched) = Some p \<Longrightarrow>
   placeFlexibleEvent payload sched = Inr p"
  by (simp add: placeFlexibleEvent_def)

lemma placeFlexibleEvent_fallback:
  "scanWindows (durationMs payload) (earliest payload sched) (latest payload sched)
     (free_windows sched) = None \<Longrightarrow>
   placeFlexibleEvent payload sched =
     (if inRange (fallbackStart sched + durationMs payload)
      then Inr (fallbackStart sched, fallbackStart sched + durationMs payload)
      else Inl RangeError)"
  by (simp add: placeFlexibleEvent_def newDate_def)

lemma placeFlexibleEvent_duration:
  "placeFlexibleEvent payload sched = Inr (s, f) \<Longrightarrow> f = s + durationMs payload"
  by (auto simp: placeFlexibleEvent_def newDate_def split: option.splits if_splits
      dest: scanWindows_Some)

lemma placeFlexibleEvent_error:
  "placeFlexibleEvent payload sched = Inl err \<Longrightarrow> err = RangeError"
  by (auto simp: placeFlexibleEvent_def split: option.splits)

lemma placeFlexibleEvent_valid:
  "(\<exists>p. placeFlexibleEvent payload sched = Inr p) =
   (fitsWindow payload sched \<or> inRange (fallbackStart sched + durationMs payload))"
  by (auto simp: placeFlexibleEvent_def fitsWindow_def newDate_def split: option.splits)

lemma eventBlock_id: "eventBlock payload eid sched = Inr b \<Longrightarrow> bl_event_id b = eid"
  by (auto simp: eventBlock_def Let_def split: event_type.splits option.splits sum.splits)

lemma eventBlock_error: "eventBlock payload eid sched = Inl err \<Longrightarrow> err = RangeError"
  by (auto simp: eventBlock_def Let_def split: event_type.splits option.splits sum.splits
      dest: placeFlexibleEvent_error)

lemma eventBlock_valid:
  "(\<exists>b. eventBlock payload eid sched = Inr b) = blockEndValid payload sched"
proof (cases "pl_type payload")
  case Fixed
  then show ?thesis
    by (auto simp: eventBlock_def blockEndValid_def newDate_def Let_def)
next
  case Flexible
  then show ?thesis
    using placeFlexibleEvent_valid [of payload sched]
    by (auto simp: eventBlock_def blockEndValid_def split: sum.splits)
qed

lemma eventBlock_invalid:
  "\<not> blockEndValid payload sched \<Longrightarrow> eventBlock payload eid sched = Inl RangeError"
  using eventBlock_valid [of payload eid sched] eventBlock_error [of payload eid sched]
  by (cases "eventBlock payload eid sched") auto

lemma eventBlock_flexible:
  "pl_type payload = Flexible \<Longrightarrow> eventBlock payload eid sched = Inr b \<Longrightarrow>
   \<exists>s. placeFlexibleEvent payload sched = Inr (s, s + durationMs payload) \<and>
     b = \<lparr>bl_start = s, bl_end = s + durationMs payload, bl_event_id = eid,
       bl_type = Flexible, bl_chunk_index = None, bl_chunk_count = None\<rparr>"
  by (auto simp: eventBlock_def split: sum.splits dest: placeFlexibleEvent_duration)

lemma create_unchanged:
  "pl_event_id payload = None \<or> pl_event_id payload = Some [] \<Longrightarrow>
   mockCreateEvent payload st = (Inl MissingEventId, st)"
  by (auto simp add: mockCreateEvent_def)

lemma create_error:
  "pl_event_id payload = Some eid \<Longrightarrow> eid \<noteq> [] \<Longrightarrow>
   eventBlock payload eid (schedule st) = Inl err \<Longrightarrow>
   mockCreateEvent payload st = (Inl err, st)"
  by (simp add: mockCreateEvent_def)

lemma create_result:
  "pl_event_id payload = Some eid \<Longrightarrow> eid \<noteq> [] \<Longrightarrow>
   eventBlock payload eid (schedule st) = Inr b \<Longrightarrow>
   fst (mockCreateEvent payload st) = Inr (schedule (snd (mockCreateEvent payload st)))"
  by (simp add: mockCreateEvent_def Let_def)

lemma create_blocks:
  "pl_event_id payload = Some eid \<Longrightarrow> eid \<noteq> [] \<Longrightarrow>
   eventBlock payload eid (schedule st) = Inr b \<Longrightarrow>
   blocks (schedule (snd (mockCreateEvent payload st))) =
   sort_key bl_start (filter (\<lambda>x. bl_event_id x \<noteq> eid) (blocks (schedule st)) @ [b])"
  by (simp add: mockCreateEvent_def Let_def)

lemma create_events:
  "pl_event_id payload = Some eid \<Longrightarrow> eid \<noteq> [] \<Longrightarrow>
   eventBlock payload eid (schedule st) = Inr b \<Longrightarrow>
   events (schedule (snd (mockCreateEvent payload st))) =
   filter (\<lambda>e. ev_event_id e \<noteq> eid) (events (schedule st)) @
      [\<lparr>ev_event_id = eid, ev_type = pl_type payload,
        ev_duration_minutes = pl_duration_minutes payload,
        ev_importance = pl_importance payload, ev_details = []\<rparr>]"
  by (simp add: mockCreateEvent_def Let_def)

lemma create_fresh:
  "pl_event_id payload = Some eid \<Longrightarrow> eid \<noteq> [] \<Longrightarrow>
   eventBlock payload eid (schedule st) = Inr b \<Longrightarrow>
   free_windows (schedule (snd (mockCreateEvent payload st))) =
   computeFreeWindows (schedule (snd (mockCreateEvent payload st)))"
  by (simp add: mockCreateEvent_def Let_def computeFreeWindows_def)

text \<open>A create either leaves the state as it was or commits the block it built.\<close>

lemma create_cases:
  obtains (same) "snd (mockCreateEvent payload st) = st"
  | (built) eid b where "pl_event_id payload = Some eid" "eid \<noteq> []"
      "eventBlock payload eid (schedule st) = Inr b"
proof (cases "pl_event_id payload = None \<or> pl_event_id payload = Some []")
  case True
  from create_unchanged [OF this] same show ?thesis by simp
next
  case False
  then obtain eid where eid: "pl_event_id payload = Some eid" "eid \<noteq> []" by auto
  show ?thesis
  proof (cases "eventBlock payload eid (schedule st)")
    case (Inl err)
    from create_error [OF eid this] same show ?thesis by simp
  next
    case (Inr b)
    with eid built show ?thesis by blast
  qed
qed





section \<open>No overlap between blocks\<close>














section \<open>Identifiers\<close>

lemma distinct_map_sort_key: "distinct (map f (sort_key g xs)) = distinct (map f xs)"
  by (simp add: distinct_map)

lemma length_filter_other:
  "distinct (map f xs) \<Longrightarrow> k \<in> set (map f xs) \<Longrightarrow>
   Suc (length (filter (\<lambda>x. f x \<noteq> k) xs)) = length xs"
proof (induction xs)
  case Nil
  then show ?case by simp
next
  case (Cons a xs)
  show ?case
  proof (cases "f a = k")
    case True
    with Cons.prems have "\<forall>x\<in>set xs. f x \<noteq> k" by (auto simp: image_iff)
    then have "filter (\<lambda>x. f x \<noteq> k) xs = xs" by (simp add: filter_id_conv)
    with True show ?thesis by simp
  next
    case False
    with Cons show ?thesis by auto
  qed
qed

lemma uniqueIds_init: "uniqueIds (createMockState t)"
  by (simp add: uniqueIds_def createMockState_def Let_def)

lemma uniqueIds_complete: "uniqueIds st \<Longrightarrow> uniqueIds (snd (mockCompleteEvent eventId st))"
  by (auto simp add: uniqueIds_def mockCompleteEvent_def Let_def distinct_map_filter)

lemma uniqueIds_settings: "uniqueIds st \<Longrightarrow> uniqueIds (snd (mockUpdateSettings payload st))"
  by (simp add: uniqueIds_def mockUpdateSettings_def Let_def split: option.splits)

lemma uniqueIds_create:
  assumes "uniqueIds st"
  shows "uniqueIds (snd (mockCreateEvent payload st))"
proof (cases payload st rule: create_cases)
  case same
  with assms show ?thesis by simp
next
  case (built eid b)
  note id = eventBlock_id [OF built(3)]
  have ev: "distinct (map ev_event_id (events (schedule (snd (mockCreateEvent payload st)))))"
    using assms by (auto simp add: create_events [OF built] uniqueIds_def distinct_map_filter)
  have bl: "distinct (map bl_event_id (blocks (schedule (snd (mockCreateEvent payload st)))))"
    using assms id
    by (auto simp add: create_blocks [OF built] uniqueIds_def distinct_map_sort_key
        distinct_map_filter)
  have "set (map ev_event_id (events (schedule (snd (mockCreateEvent payload st))))) =
    insert eid (set (map ev_event_id (events (schedule st))) - {eid})"
    by (auto simp add: create_events [OF built])
  moreover have "set (map bl_event_id (blocks (schedule (snd (mockCreateEvent payload st))))) =
    insert eid (set (map bl_event_id (blocks (schedule st))) - {eid})"
    using id by (auto simp add: create_blocks [OF built])
  ultimately show ?thesis using ev bl assms by (simp add: uniqueIds_def)
qed

lemma reachable_uniqueIds: "reachable st \<Longrightarrow> uniqueIds st"
  by (induction rule: reachable.induct)
     (simp_all add: uniqueIds_init uniqueIds_create uniqueIds_complete uniqueIds_settings)

lemma create_filter_events:
  "pl_event_id payload = Some eid \<Longrightarrow> eid \<noteq> [] \<Longrightarrow>
   eventBlock payload eid (schedule st) = Inr b \<Longrightarrow>
   filter (\<lambda>e. ev_event_id e = eid) (events (schedule (snd (mockCreateEvent payload st)))) =
     [\<lparr>ev_event_id = eid, ev_type = pl_type payload,
       ev_duration_minutes = pl_duration_minutes payload,
       ev_importance = pl_importance payload, ev_details = []\<rparr>]"
  by (simp add: create_events)

lemma create_filter_blocks:
  "pl_event_id payload = Some eid \<Longrightarrow> eid \<noteq> [] \<Longrightarrow>
   eventBlock payload eid (schedule st) = Inr b \<Longrightarrow>
   filter (\<lambda>x. bl_event_id x = eid) (blocks (schedule (snd (mockCreateEvent payload st)))) = [b]"
  using eventBlock_id [of payload eid "schedule st" b]
  by (simp add: create_blocks filter_sort)

text \<open>
  Claim C10. In every schedule reached from the initial one by create, complete and
  settings operations, no two events share an identifier and no two blocks share an
  identifier. A create under an identifier that is already in such a schedule replaces
  the previous event and its block when the end of the new block is a valid date: the
  numbers of events and of blocks stay the same, and the only event and the only block
  under the identifier are the new ones. When the end is not a valid date the create
  throws and leaves the schedule as it was. In neither case is a second entry added.
\<close>

theorem reachable_unique_ids:
  "reachable st \<Longrightarrow>
   distinct (map ev_event_id (events (schedule st))) \<and>
   distinct (map bl_event_id (blocks (schedule st))) \<and>
   (\<forall>payload eid.
      pl_event_id payload = Some eid \<and> eid \<noteq> [] \<and>
      eid \<in> set (map ev_event_id (events (schedule st))) \<longrightarrow>
      (blockEndValid payload (schedule st) \<longrightarrow>
        length (events (schedule (snd (mockCreateEvent payload st)))) = length (events (schedule st)) \<and>
        length (blocks (schedule (snd (mockCreateEvent payload st)))) = length (blocks (schedule st)) \<and>
        filter (\<lambda>e. ev_event_id e = eid) (events (schedule (snd (mockCreateEvent payload st)))) =
          [\<lparr>ev_event_id = eid, ev_type = pl_type payload,
            ev_duration_minutes = pl_duration_minutes payload,
            ev_importance = pl_importance payload, ev_details = []\<rparr>] \<and>
        (\<exists>b. eventBlock payload eid (schedule st) = Inr b \<and>
          filter (\<lambda>x. bl_event_id x = eid) (blocks (schedule (snd (mockCreateEvent payload st)))) = [b])) \<and>
      (\<not> blockEndValid payload (schedule st) \<longrightarrow>
        mockCreateEvent payload st = (Inl RangeError, st)))"
proof -
  assume r: "reachable st"
  then have u: "uniqueIds st" by (rule reachable_uniqueIds)
  have d1: "distinct (map ev_event_id (events (schedule st)))"
    and d2: "distinct (map bl_event_id (blocks (schedule st)))"
    and same: "set (map ev_event_id (events (schedule st))) = set (map bl_event_id (blocks (schedule st)))"
    using u by (simp_all add: uniqueIds_def)
  have valid: "length (events (schedule (snd (mockCreateEvent payload st)))) = length (events (schedule st)) \<and>
        length (blocks (schedule (snd (mockCreateEvent payload st)))) = length (blocks (schedule st)) \<and>
        filter (\<lambda>e. ev_event_id e = eid) (events (schedule (snd (mockCreateEvent payload st)))) =
          [\<lparr>ev_event_id = eid, ev_type = pl_type payload,
            ev_duration_minutes = pl_duration_minutes payload,
            ev_importance = pl_importance payload, ev_details = []\<rparr>] \<and>
        (\<exists>b. eventBlock payload eid (schedule st) = Inr b \<and>
          filter (\<lambda>x. bl_event_id x = eid) (blocks (schedule (snd (mockCreateEvent payload st)))) = [b])"
    if eid: "pl_event_id payload = Some eid" "eid \<noteq> []"
      and mem: "eid \<in> set (map ev_event_id (events (schedule st)))"
      and ok: "blockEndValid payload (schedule st)" for payload eid
  proof -
    from ok eventBlock_valid [of payload eid "schedule st"]
    obtain b where b: "eventBlock payload eid (schedule st) = Inr b" by blast
    from mem same have memb: "eid \<in> set (map bl_event_id (blocks (schedule st)))" by simp
    have "length (events (schedule (snd (mockCreateEvent payload st)))) = length (events (schedule st))"
      using length_filter_other [OF d1 mem] by (simp add: create_events [OF eid b])
    moreover have "length (blocks (schedule (snd (mockCreateEvent payload st)))) = length (blocks (schedule st))"
      using length_filter_other [OF d2 memb] by (simp add: create_blocks [OF eid b])
    ultimately show ?thesis
      using create_filter_events [OF eid b] create_filter_blocks [OF eid b] b by simp
  qed
  have invalid: "mockCreateEvent payload st = (Inl RangeError, st)"
    if "pl_event_id payload = Some eid" "eid \<noteq> []" "\<not> blockEndValid payload (schedule st)"
    for payload eid
    using that by (simp add: create_error eventBlock_invalid)
  from d1 d2 valid invalid show ?thesis by blast
qed

text \<open>
  The initial schedule and two creates under the identifier of the training: a flexible
  half hour, which replaces the training, and a flexible event too long for a date,
  which is refused.
\<close>

theorem reachable_unique_ids_witness:
  "reachable (createMockState 0) \<and>
   distinct (map ev_event_id (events (schedule (createMockState 0)))) \<and>
   distinct (map bl_event_id (blocks (schedule (createMockState 0)))) \<and>
   pl_event_id duplicatePayload = Some ''training'' \<and>
   ''training'' \<in> set (map ev_event_id (events (schedule (createMockState 0)))) \<and>
   blockEndValid duplicatePayload (schedule (createMockState 0)) \<and>
   length (events (schedule (snd (mockCreateEvent duplicatePayload (createMockState 0)))))
     = length (events (schedule (createMockState 0))) \<and>
   length (blocks (schedule (snd (mockCreateEvent duplicatePayload (createMockState 0)))))
     = length (blocks (schedule (createMockState 0))) \<and>
   filter (\<lambda>e. ev_event_id e = ''training'')
     (events (schedule (snd (mockCreateEvent duplicatePayload (createMockState 0)))))
     = [\<lparr>ev_event_id = ''training'', ev_type = pl_type duplicatePayload,
         ev_duration_minutes = pl_duration_minutes duplicatePayload,
         ev_importance = pl_importance duplicatePayload, ev_details = []\<rparr>] \<and>
   pl_event_id overflowFlexible = Some ''training'' \<and>
   \<not> blockEndValid overflowFlexible (schedule (createMockState 0)) \<and>
   mockCreateEvent overflowFlexible (createMockState 0) = (Inl RangeError, createMockState 0)"
proof -
  have r: "reachable (createMockState 0)" by (rule reachable.init)
  have p: "pl_event_id duplicatePayload = Some ''training''"
    by (simp add: duplicatePayload_def)
  have p': "pl_event_id overflowFlexible = Some ''training''"
    by (simp add: overflowFlexible_def)
  have m: "''training'' \<in> set (map ev_event_id (events (schedule (createMockState 0))))"
    by (simp add: createMockState_def Let_def)
  have n: "''training'' \<noteq> []" by simp
  have v: "blockEndValid duplicatePayload (schedule (createMockState 0))"
    by (simp add: blockEndValid_def fitsWindow_def duplicatePayload_def createMockState_def
        computeFreeWindows_def newDate_def inRange_def maxTime_def durationMs_def earliest_def
        latest_def hour_def Let_def)
  have v': "\<not> blockEndValid overflowFlexible (schedule (createMockState 0))"
    by (simp add: blockEndValid_def fitsWindow_def overflowFlexible_def createMockState_def
        computeFreeWindows_def fallbackStart_def newDate_def inRange_def maxTime_def
        durationMs_def earliest_def latest_def hour_def Let_def)
  from reachable_unique_ids [OF r] p p' m n v v' r show ?thesis by blast
qed

section \<open>Creating under an identifier that is present\<close>

text \<open>
  Claim C5, amended. Creating an event whose identifier is non-empty and already among
  the events never fails for that reason. When the end of the new block is a valid date
  the call returns the schedule it leaves in the state, in which the events and blocks
  under that identifier are removed, the new event is appended, the new block is sorted
  in by start, and the free windows are recomputed. When the end of the new block is
  not a valid date the call throws a \<open>RangeError\<close> and leaves the state as it was.
\<close>

theorem mockCreateEvent_duplicate_replaces:
  "pl_event_id payload = Some eid \<Longrightarrow> eid \<noteq> [] \<Longrightarrow>
   eid \<in> set (map ev_event_id (events (schedule st))) \<Longrightarrow>
   (blockEndValid payload (schedule st) \<longrightarrow>
      fst (mockCreateEvent payload st) = Inr (schedule (snd (mockCreateEvent payload st))) \<and>
      events (schedule (snd (mockCreateEvent payload st))) =
        filter (\<lambda>e. ev_event_id e \<noteq> eid) (events (schedule st)) @
          [\<lparr>ev_event_id = eid, ev_type = pl_type payload,
            ev_duration_minutes = pl_duration_minutes payload,
            ev_importance = pl_importance payload, ev_details = []\<rparr>] \<and>
      (\<exists>b. eventBlock payload eid (schedule st) = Inr b \<and>
         blocks (schedule (snd (mockCreateEvent payload st))) =
           sort_key bl_start (filter (\<lambda>x. bl_event_id x \<noteq> eid) (blocks (schedule st)) @ [b])) \<and>
      free_windows (schedule (snd (mockCreateEvent payload st))) =
        computeFreeWindows (schedule (snd (mockCreateEvent payload st)))) \<and>
   (\<not> blockEndValid payload (schedule st) \<longrightarrow>
      mockCreateEvent payload st = (Inl RangeError, st))"
proof -
  assume eid: "pl_event_id payload = Some eid" "eid \<noteq> []"
  have valid: "fst (mockCreateEvent payload st) = Inr (schedule (snd (mockCreateEvent payload st))) \<and>
      events (schedule (snd (mockCreateEvent payload st))) =
        filter (\<lambda>e. ev_event_id e \<noteq> eid) (events (schedule st)) @
          [\<lparr>ev_event_id = eid, ev_type = pl_type payload,
            ev_duration_minutes = pl_duration_minutes payload,
            ev_importance = pl_importance payload, ev_details = []\<rparr>] \<and>
      (\<exists>b. eventBlock payload eid (schedule st) = Inr b \<and>
         blocks (schedule (snd (mockCreateEvent payload st))) =
           sort_key bl_start (filter (\<lambda>x. bl_event_id x \<noteq> eid) (blocks (schedule st)) @ [b])) \<and>
      free_windows (schedule (snd (mockCreateEvent payload st))) =
        computeFreeWindows (schedule (snd (mockCreateEvent payload st)))"
    if ok: "blockEndValid payload (schedule st)"
  proof -
    from ok eventBlock_valid [of payload eid "schedule st"]
    obtain b where b: "eventBlock payload eid (schedule st) = Inr b" by blast
    from create_result [OF eid b] create_events [OF eid b] create_blocks [OF eid b]
      create_fresh [OF eid b] b
    show ?thesis by blast
  qed
  have invalid: "mockCreateEvent payload st = (Inl RangeError, st)"
    if "\<not> blockEndValid payload (schedule st)"
    using that eid by (simp add: create_error eventBlock_invalid)
  from valid invalid show ?thesis by blast
qed

text \<open>Two creates under the identifier of the training: a half hour, and too long an event.\<close>

theorem mockCreateEvent_duplicate_replaces_witness:
  "pl_event_id duplicatePayload = Some ''training'' \<and>
   ''training'' \<in> set (map ev_event_id (events (schedule (createMockState 0)))) \<and>
   blockEndValid duplicatePayload (schedule (createMockState 0)) \<and>
   fst (mockCreateEvent duplicatePayload (createMockState 0)) =
     Inr (schedule (snd (mockCreateEvent duplicatePayload (createMockState 0)))) \<and>
   events (schedule (snd (mockCreateEvent duplicatePayload (createMockState 0)))) =
     filter (\<lambda>e. ev_event_id e \<noteq> ''training'') (events (schedule (createMockState 0))) @
       [\<lparr>ev_event_id = ''training'', ev_type = pl_type duplicatePayload,
         ev_duration_minutes = pl_duration_minutes duplicatePayload,
         ev_importance = pl_importance duplicatePayload, ev_details = []\<rparr>] \<and>
   pl_event_id overflowFlexible = Some ''training'' \<and>
   \<not> blockEndValid overflowFlexible (schedule (createMockState 0)) \<and>
   mockCreateEvent overflowFlexible (createMockState 0) = (Inl RangeError, createMockState 0)"
proof -
  have p: "pl_event_id duplicatePayload = Some ''training''"
    by (simp add: duplicatePayload_def)
  have p': "pl_event_id overflowFlexible = Some ''training''"
    by (simp add: overflowFlexible_def)
  have m: "''training'' \<in> set (map ev_event_id (events (schedule (createMockState 0))))"
    by (simp add: createMockState_def Let_def)
  have n: "''training'' \<noteq> []" by simp
  have v: "blockEndValid duplicatePayload (schedule (createMockState 0))"
    by (simp add: blockEndValid_def fitsWindow_def duplicatePayload_def createMockState_def
        computeFreeWindows_def newDate_def inRange_def maxTime_def durationMs_def earliest_def
        latest_def hour_def Let_def)
  have v': "\<not> blockEndValid overflowFlexible (schedule (createMockState 0))"
    by (simp add: blockEndValid_def fitsWindow_def overflowFlexible_def createMockState_def
        computeFreeWindows_def fallbackStart_def newDate_def inRange_def maxTime_def
        durationMs_def earliest_def latest_def hour_def Let_def)
  from mockCreateEvent_duplicate_replaces [OF p n m] mockCreateEvent_duplicate_replaces [OF p' n m]
    p p' m v v'
  show ?thesis by blast
qed

text \<open>
  Claim C5 as stated fails: the create under the identifier "training" returns a
  schedule, not an error, and the state is no longer the initial one.
\<close>

theorem mockCreateEvent_duplicate_counterexample:
  "pl_event_id duplicatePayload = Some ''training'' \<and>
   map ev_event_id (events (schedule (createMockState 0))) = [''training'', ''lecture''] \<and>
   fst (mockCreateEvent duplicatePayload (createMockState 0)) =
     Inr \<lparr>day_start = 0, day_end = 43200000,
       events =
         [\<lparr>ev_event_id = ''lecture'', ev_type = Fixed, ev_duration_minutes = 90,
           ev_importance = 1, ev_details = []\<rparr>,
          \<lparr>ev_event_id = ''training'', ev_type = Flexible, ev_duration_minutes = 30,
           ev_importance = 2, ev_details = []\<rparr>],
       blocks =
         [\<lparr>bl_start = 0, bl_end = 1800000, bl_event_id = ''training'', bl_type = Flexible,
           bl_chunk_index = None, bl_chunk_count = None\<rparr>,
          \<lparr>bl_start = 18000000, bl_end = 23400000, bl_event_id = ''lecture'', bl_type = Fixed,
           bl_chunk_index = None, bl_chunk_count = None\<rparr>],
       free_windows =
         [\<lparr>fw_start = 1800000, fw_end = 18000000\<rparr>, \<lparr>fw_start = 23400000, fw_end = 43200000\<rparr>]\<rparr> \<and>
   snd (mockCreateEvent duplicatePayload (createMockState 0)) \<noteq> createMockState 0"
  by (simp add: mockCreateEvent_def duplicatePayload_def createMockState_def eventBlock_def
      placeFlexibleEvent_def newDate_def inRange_def maxTime_def computeFreeWindows_def
      durationMs_def earliest_def latest_def hour_def Let_def)

section \<open>Creating a fixed event\<close>

text \<open>
  Claim C3, amended. Creating a fixed event with a non-empty identifier never fails
  because its block meets a committed block. When the declared start (the start of the
  day when none is declared) plus the duration is a valid date, the call returns the
  schedule it leaves in the state, whose blocks are the blocks of the other events
  together with the block from the start to that end, sorted by start. When that end
  is not a valid date the call throws a \<open>RangeError\<close> and leaves the state as it was.
\<close>

theorem mockCreateEvent_fixed_commits:
  "pl_type payload = Fixed \<Longrightarrow> pl_event_id payload = Some eid \<Longrightarrow> eid \<noteq> [] \<Longrightarrow>
   start = (case pl_start payload of Some s \<Rightarrow> s | None \<Rightarrow> day_start (schedule st)) \<Longrightarrow>
   block = \<lparr>bl_start = start, bl_end = start + pl_duration_minutes payload * 60 * 1000,
     bl_event_id = eid, bl_type = Fixed, bl_chunk_index = None, bl_chunk_count = None\<rparr> \<Longrightarrow>
   (inRange (start + pl_duration_minutes payload * 60 * 1000) \<longrightarrow>
      fst (mockCreateEvent payload st) = Inr (schedule (snd (mockCreateEvent payload st))) \<and>
      blocks (schedule (snd (mockCreateEvent payload st))) =
        sort_key bl_start (filter (\<lambda>b. bl_event_id b \<noteq> eid) (blocks (schedule st)) @ [block]) \<and>
      set (blocks (schedule (snd (mockCreateEvent payload st)))) =
        insert block {b \<in> set (blocks (schedule st)). bl_event_id b \<noteq> eid}) \<and>
   (\<not> inRange (start + pl_duration_minutes payload * 60 * 1000) \<longrightarrow>
      mockCreateEvent payload st = (Inl RangeError, st))"
proof -
  assume fixed: "pl_type payload = Fixed" and eid: "pl_event_id payload = Some eid" "eid \<noteq> []"
    and start: "start = (case pl_start payload of Some s \<Rightarrow> s | None \<Rightarrow> day_start (schedule st))"
    and block: "block = \<lparr>bl_start = start, bl_end = start + pl_duration_minutes payload * 60 * 1000,
     bl_event_id = eid, bl_type = Fixed, bl_chunk_index = None, bl_chunk_count = None\<rparr>"
  have eb: "eventBlock payload eid (schedule st) =
    (if inRange (start + pl_duration_minutes payload * 60 * 1000) then Inr block
     else Inl RangeError)"
    using fixed start block by (simp add: eventBlock_def newDate_def Let_def)
  have valid: "fst (mockCreateEvent payload st) = Inr (schedule (snd (mockCreateEvent payload st))) \<and>
      blocks (schedule (snd (mockCreateEvent payload st))) =
        sort_key bl_start (filter (\<lambda>b. bl_event_id b \<noteq> eid) (blocks (schedule st)) @ [block]) \<and>
      set (blocks (schedule (snd (mockCreateEvent payload st)))) =
        insert block {b \<in> set (blocks (schedule st)). bl_event_id b \<noteq> eid}"
    if "inRange (start + pl_duration_minutes payload * 60 * 1000)"
  proof -
    from that eb have b: "eventBlock payload eid (schedule st) = Inr block" by simp
    from create_result [OF eid b] create_blocks [OF eid b] show ?thesis by auto
  qed
  have invalid: "mockCreateEvent payload st = (Inl RangeError, st)"
    if "\<not> inRange (start + pl_duration_minutes payload * 60 * 1000)"
    using that eb eid by (simp add: create_error)
  from valid invalid show ?thesis by blast
qed

text \<open>
  The fixed hour from 10:00 in the initial schedule, which is committed, and the fixed
  event too long for a date, which is refused.
\<close>

theorem mockCreateEvent_fixed_commits_witness:
  "pl_type conflictPayload = Fixed \<and> pl_event_id conflictPayload = Some ''x'' \<and>
   inRange (2 * hour + pl_duration_minutes conflictPayload * 60 * 1000) \<and>
   fst (mockCreateEvent conflictPayload (createMockState 0)) =
     Inr (schedule (snd (mockCreateEvent conflictPayload (createMockState 0)))) \<and>
   set (blocks (schedule (snd (mockCreateEvent conflictPayload (createMockState 0))))) =
     insert \<lparr>bl_start = 2 * hour, bl_end = 2 * hour + pl_duration_minutes conflictPayload * 60 * 1000,
         bl_event_id = ''x'', bl_type = Fixed, bl_chunk_index = None, bl_chunk_count = None\<rparr>
       {b \<in> set (blocks (schedule (createMockState 0))). bl_event_id b \<noteq> ''x''} \<and>
   pl_type overflowFixed = Fixed \<and> pl_event_id overflowFixed = Some ''over'' \<and>
   \<not> inRange (0 + pl_duration_minutes overflowFixed * 60 * 1000) \<and>
   mockCreateEvent overflowFixed (createMockState 0) = (Inl RangeError, createMockState 0)"
proof -
  have t: "pl_type conflictPayload = Fixed" by (simp add: conflictPayload_def)
  have p: "pl_event_id conflictPayload = Some ''x''" by (simp add: conflictPayload_def)
  have n: "''x'' \<noteq> []" by simp
  have s: "2 * hour =
    (case pl_start conflictPayload of Some s \<Rightarrow> s | None \<Rightarrow> day_start (schedule (createMockState 0)))"
    by (simp add: conflictPayload_def)
  have v: "inRange (2 * hour + pl_duration_minutes conflictPayload * 60 * 1000)"
    by (simp add: conflictPayload_def inRange_def maxTime_def hour_def)
  have t': "pl_type overflowFixed = Fixed" by (simp add: overflowFixed_def)
  have p': "pl_event_id overflowFixed = Some ''over''" by (simp add: overflowFixed_def)
  have n': "''over'' \<noteq> []" by simp
  have s': "0 =
    (case pl_start overflowFixed of Some s \<Rightarrow> s | None \<Rightarrow> day_start (schedule (createMockState 0)))"
    by (simp add: overflowFixed_def createMockState_def Let_def)
  have v': "\<not> inRange (0 + pl_duration_minutes overflowFixed * 60 * 1000)"
    by (simp add: overflowFixed_def inRange_def maxTime_def)
  from mockCreateEvent_fixed_commits [OF t p n s refl]
    mockCreateEvent_fixed_commits [OF t' p' n' s' refl] t p v t' p' v'
  show ?thesis by blast
qed

text \<open>
  Claim C3 as stated fails: the fixed hour from 10:00 to 11:00 overlaps the training
  from 10:00 to 11:00, the create returns a schedule, and the schedule holds both blocks.
\<close>

theorem mockCreateEvent_conflict_counterexample:
  "pl_type conflictPayload = Fixed \<and>
   pl_start conflictPayload = Some 7200000 \<and>
   pl_duration_minutes conflictPayload = 60 \<and>
   blocks (schedule (createMockState 0)) ! 0 =
     \<lparr>bl_start = 7200000, bl_end = 10800000, bl_event_id = ''training'', bl_type = Fixed,
       bl_chunk_index = None, bl_chunk_count = None\<rparr> \<and>
   fst (mockCreateEvent conflictPayload (createMockState 0)) =
     Inr (schedule (snd (mockCreateEvent conflictPayload (createMockState 0)))) \<and>
   blocks (schedule (snd (mockCreateEvent conflictPayload (createMockState 0)))) =
    [\<lparr>bl_start = 7200000, bl_end = 10800000, bl_event_id = ''training'', bl_type = Fixed,
      bl_chunk_index = None, bl_chunk_count = None\<rparr>,
     \<lparr>bl_start = 7200000, bl_end = 10800000, bl_event_id = ''x'', bl_type = Fixed,
      bl_chunk_index = None, bl_chunk_count = None\<rparr>,
     \<lparr>bl_start = 18000000, bl_end = 23400000, bl_event_id = ''lecture'', bl_type = Fixed,
      bl_chunk_index = None, bl_chunk_count = None\<rparr>] \<and>
   snd (mockCreateEvent conflictPayload (createMockState 0)) \<noteq> createMockState 0"
  by (simp add: mockCreateEvent_def conflictPayload_def createMockState_def eventBlock_def
      newDate_def inRange_def maxTime_def computeFreeWindows_def hour_def Let_def)

section \<open>Placing a flexible event\<close>

text \<open>
  Claim C1, amended. Placement scans the free windows in list order, which is ascending
  by start when the list is the computed one, and returns the interval of exactly the
  declared duration that starts at the later of the window start and the earliest start
  in the first window where that interval has valid dates and ends within the window
  and by the latest finish. When no window qualifies the event is placed all the same:
  the interval of the declared duration starts at the end of the last block of the
  block list, or at the start of the day when there is no block; only when its end is
  not a valid date does placement throw a \<open>RangeError\<close>. A create of the flexible event
  commits a block on the interval returned, and a create whose placement throws leaves
  the state as it was. The flag \<open>can_split\<close> plays no part.
\<close>

theorem placeFlexibleEvent_first_fit_or_fallback:
  "sched = schedule st \<Longrightarrow> d = durationMs payload \<Longrightarrow> e = earliest payload sched \<Longrightarrow>
   l = latest payload sched \<Longrightarrow> ws = free_windows sched \<Longrightarrow>
   ((\<exists>i<length ws. (\<forall>j<i. \<not> qualifies d e l (ws ! j)) \<and> qualifies d e l (ws ! i) \<and>
        placeFlexibleEvent payload sched =
          Inr (max (fw_start (ws ! i)) e, max (fw_start (ws ! i)) e + d)) \<or>
    ((\<forall>w\<in>set ws. \<not> qualifies d e l w) \<and>
     placeFlexibleEvent payload sched =
       (if inRange (fallbackStart sched + d)
        then Inr (fallbackStart sched, fallbackStart sched + d)
        else Inl RangeError))) \<and>
   (ws = computeFreeWindows sched \<longrightarrow> sorted (map fw_start ws)) \<and>
   (pl_type payload = Flexible \<and> pl_event_id payload = Some eid \<and> eid \<noteq> [] \<longrightarrow>
      (\<forall>s f. placeFlexibleEvent payload sched = Inr (s, f) \<longrightarrow>
         f = s + d \<and>
         fst (mockCreateEvent payload st) = Inr (schedule (snd (mockCreateEvent payload st))) \<and>
         \<lparr>bl_start = s, bl_end = f, bl_event_id = eid, bl_type = Flexible,
           bl_chunk_index = None, bl_chunk_count = None\<rparr>
           \<in> set (blocks (schedule (snd (mockCreateEvent payload st))))) \<and>
      (placeFlexibleEvent payload sched = Inl RangeError \<longrightarrow>
         mockCreateEvent payload st = (Inl RangeError, st)))"
proof -
  assume eqs: "sched = schedule st" "d = durationMs payload" "e = earliest payload sched"
    "l = latest payload sched" "ws = free_windows sched"
  have place: "(\<exists>i<length ws. (\<forall>j<i. \<not> qualifies d e l (ws ! j)) \<and> qualifies d e l (ws ! i) \<and>
        placeFlexibleEvent payload sched =
          Inr (max (fw_start (ws ! i)) e, max (fw_start (ws ! i)) e + d)) \<or>
    ((\<forall>w\<in>set ws. \<not> qualifies d e l w) \<and>
     placeFlexibleEvent payload sched =
       (if inRange (fallbackStart sched + d)
        then Inr (fallbackStart sched, fallbackStart sched + d)
        else Inl RangeError))"
  proof (cases "scanWindows d e l ws")
    case None
    then have "\<forall>w\<in>set ws. \<not> qualifies d e l w" by (simp add: scanWindows_None)
    moreover from None eqs have "placeFlexibleEvent payload sched =
       (if inRange (fallbackStart sched + d)
        then Inr (fallbackStart sched, fallbackStart sched + d)
        else Inl RangeError)"
      by (simp add: placeFlexibleEvent_fallback)
    ultimately show ?thesis by blast
  next
    case (Some p)
    from scanWindows_first [OF Some] obtain i where i: "i < length ws"
      "\<forall>j<i. \<not> qualifies d e l (ws ! j)" "qualifies d e l (ws ! i)"
      "p = (max (fw_start (ws ! i)) e, max (fw_start (ws ! i)) e + d)" by blast
    from Some eqs i(4) have "placeFlexibleEvent payload sched =
        Inr (max (fw_start (ws ! i)) e, max (fw_start (ws ! i)) e + d)"
      by (simp add: placeFlexibleEvent_fit)
    with i show ?thesis by blast
  qed
  have srt: "ws = computeFreeWindows sched \<longrightarrow> sorted (map fw_start ws)"
    by (simp add: computeFreeWindows_sorted)
  have placed: "f = s + d \<and>
         fst (mockCreateEvent payload st) = Inr (schedule (snd (mockCreateEvent payload st))) \<and>
         \<lparr>bl_start = s, bl_end = f, bl_event_id = eid, bl_type = Flexible,
           bl_chunk_index = None, bl_chunk_count = None\<rparr>
           \<in> set (blocks (schedule (snd (mockCreateEvent payload st))))"
    if flex: "pl_type payload = Flexible" and eid: "pl_event_id payload = Some eid" "eid \<noteq> []"
      and pl: "placeFlexibleEvent payload sched = Inr (s, f)" for s f
  proof -
    have b: "eventBlock payload eid (schedule st) =
      Inr \<lparr>bl_start = s, bl_end = f, bl_event_id = eid, bl_type = Flexible,
           bl_chunk_index = None, bl_chunk_count = None\<rparr>"
      using flex pl eqs(1) by (simp add: eventBlock_def)
    from placeFlexibleEvent_duration [OF pl] eqs(2) have "f = s + d" by simp
    with create_result [OF eid b] create_blocks [OF eid b] show ?thesis by simp
  qed
  have refused: "mockCreateEvent payload st = (Inl RangeError, st)"
    if "pl_type payload = Flexible" "pl_event_id payload = Some eid" "eid \<noteq> []"
      "placeFlexibleEvent payload sched = Inl RangeError"
    using that eqs(1) by (simp add: create_error eventBlock_def)
  from place srt placed refused show ?thesis by blast
qed

text \<open>
  A flexible hour in the initial schedule, which the window from 08:00 takes, and a
  flexible event too long for a date, which is refused.
\<close>

theorem placeFlexibleEvent_first_fit_or_fallback_witness:
  "placeFlexibleEvent fittingPayload (schedule (createMockState 0)) = Inr (0, 3600000) \<and>
   3600000 = 0 + durationMs fittingPayload \<and>
   free_windows (schedule (createMockState 0)) = computeFreeWindows (schedule (createMockState 0)) \<and>
   sorted (map fw_start (free_windows (schedule (createMockState 0)))) \<and>
   pl_type fittingPayload = Flexible \<and> pl_event_id fittingPayload = Some ''walk'' \<and>
   fst (mockCreateEvent fittingPayload (createMockState 0)) =
     Inr (schedule (snd (mockCreateEvent fittingPayload (createMockState 0)))) \<and>
   \<lparr>bl_start = 0, bl_end = 3600000, bl_event_id = ''walk'', bl_type = Flexible,
     bl_chunk_index = None, bl_chunk_count = None\<rparr>
     \<in> set (blocks (schedule (snd (mockCreateEvent fittingPayload (createMockState 0))))) \<and>
   pl_type overflowFlexible = Flexible \<and> pl_event_id overflowFlexible = Some ''training'' \<and>
   placeFlexibleEvent overflowFlexible (schedule (createMockState 0)) = Inl RangeError \<and>
   mockCreateEvent overflowFlexible (createMockState 0) = (Inl RangeError, createMockState 0)"
proof -
  have v: "placeFlexibleEvent fittingPayload (schedule (createMockState 0)) = Inr (0, 3600000)"
    by (simp add: fittingPayload_def createMockState_def placeFlexibleEvent_def newDate_def
        inRange_def maxTime_def computeFreeWindows_def durationMs_def earliest_def latest_def
        hour_def Let_def)
  have v': "placeFlexibleEvent overflowFlexible (schedule (createMockState 0)) = Inl RangeError"
    by (simp add: overflowFlexible_def createMockState_def placeFlexibleEvent_def
        fallbackStart_def newDate_def inRange_def maxTime_def computeFreeWindows_def
        durationMs_def earliest_def latest_def hour_def Let_def)
  have f: "free_windows (schedule (createMockState 0)) = computeFreeWindows (schedule (createMockState 0))"
    by (simp add: createMockState_def computeFreeWindows_def Let_def)
  have t: "pl_type fittingPayload = Flexible" "pl_event_id fittingPayload = Some ''walk''"
    by (simp_all add: fittingPayload_def)
  have t': "pl_type overflowFlexible = Flexible" "pl_event_id overflowFlexible = Some ''training''"
    by (simp_all add: overflowFlexible_def)
  have n: "''walk'' \<noteq> []" "''training'' \<noteq> []" by simp_all
  from placeFlexibleEvent_first_fit_or_fallback [OF refl refl refl refl refl,
        where payload = fittingPayload and st = "createMockState 0" and eid = "''walk''"]
    placeFlexibleEvent_first_fit_or_fallback [OF refl refl refl refl refl,
        where payload = overflowFlexible and st = "createMockState 0" and eid = "''training''"]
    v v' f t t' n
  show ?thesis by blast
qed

text \<open>
  Claim C1 as stated fails: for two unsplittable hours between 09:00 and 12:00 no free
  window of the initial schedule qualifies, and the create commits a block from 14:30
  to 16:30, right behind the lecture.
\<close>

theorem placeFlexibleEvent_unplaced_counterexample:
  "pl_can_split deepWorkPayload = Some False \<and>
   scanWindows (durationMs deepWorkPayload)
     (earliest deepWorkPayload (schedule (createMockState 0)))
     (latest deepWorkPayload (schedule (createMockState 0)))
     (free_windows (schedule (createMockState 0))) = None \<and>
   placeFlexibleEvent deepWorkPayload (schedule (createMockState 0)) = Inr (23400000, 30600000) \<and>
   blocks (schedule (snd (mockCreateEvent deepWorkPayload (createMockState 0)))) =
     [\<lparr>bl_start = 7200000, bl_end = 10800000, bl_event_id = ''training'', bl_type = Fixed,
       bl_chunk_index = None, bl_chunk_count = None\<rparr>,
      \<lparr>bl_start = 18000000, bl_end = 23400000, bl_event_id = ''lecture'', bl_type = Fixed,
       bl_chunk_index = None, bl_chunk_count = None\<rparr>,
      \<lparr>bl_start = 23400000, bl_end = 30600000, bl_event_id = ''deep-work'', bl_type = Flexible,
       bl_chunk_index = None, bl_chunk_count = None\<rparr>]"
  by (simp add: mockCreateEvent_def deepWorkPayload_def createMockState_def eventBlock_def
      placeFlexibleEvent_def fallbackStart_def newDate_def inRange_def maxTime_def
      computeFreeWindows_def durationMs_def earliest_def latest_def hour_def Let_def)

section \<open>The split flags\<close>

lemma placeFlexibleEvent_ignores_split:
  "placeFlexibleEvent (payload\<lparr>pl_can_split := split, pl_min_chunk_minutes := chunk\<rparr>) sched =
   placeFlexibleEvent payload sched"
  by (simp add: placeFlexibleEvent_def durationMs_def earliest_def latest_def
      split: option.splits)

lemma eventBlock_ignores_split:
  "eventBlock (payload\<lparr>pl_can_split := split, pl_min_chunk_minutes := chunk\<rparr>) eid sched =
   eventBlock payload eid sched"
  by (cases "pl_type payload") (simp_all add: eventBlock_def placeFlexibleEvent_ignores_split)

text \<open>
  Claim C6, amended. The allocator never splits. Creating a flexible event with a
  non-empty identifier, whatever \<open>can_split\<close> and \<open>min_chunk_minutes\<close> are, commits exactly
  one block under the identifier, of the whole declared duration and without chunk
  index or chunk count, when the end of that block is a valid date, and otherwise
  throws a \<open>RangeError\<close> and leaves the state as it was; and the result of the create does
  not depend on the two fields.
\<close>

theorem flexible_create_single_unmarked_block:
  "pl_type payload = Flexible \<Longrightarrow> pl_event_id payload = Some eid \<Longrightarrow> eid \<noteq> [] \<Longrightarrow>
   (blockEndValid payload (schedule st) \<longrightarrow>
      (\<exists>s. placeFlexibleEvent payload (schedule st) =
              Inr (s, s + pl_duration_minutes payload * 60 * 1000) \<and>
         filter (\<lambda>b. bl_event_id b = eid) (blocks (schedule (snd (mockCreateEvent payload st)))) =
           [\<lparr>bl_start = s, bl_end = s + pl_duration_minutes payload * 60 * 1000,
             bl_event_id = eid, bl_type = Flexible,
             bl_chunk_index = None, bl_chunk_count = None\<rparr>])) \<and>
   (\<not> blockEndValid payload (schedule st) \<longrightarrow>
      mockCreateEvent payload st = (Inl RangeError, st)) \<and>
   mockCreateEvent (payload\<lparr>pl_can_split := split, pl_min_chunk_minutes := chunk\<rparr>) st =
     mockCreateEvent payload st"
proof -
  assume flex: "pl_type payload = Flexible" and eid: "pl_event_id payload = Some eid" "eid \<noteq> []"
  have one: "\<exists>s. placeFlexibleEvent payload (schedule st) =
              Inr (s, s + pl_duration_minutes payload * 60 * 1000) \<and>
         filter (\<lambda>b. bl_event_id b = eid) (blocks (schedule (snd (mockCreateEvent payload st)))) =
           [\<lparr>bl_start = s, bl_end = s + pl_duration_minutes payload * 60 * 1000,
             bl_event_id = eid, bl_type = Flexible,
             bl_chunk_index = None, bl_chunk_count = None\<rparr>]"
    if ok: "blockEndValid payload (schedule st)"
  proof -
    from ok eventBlock_valid [of payload eid "schedule st"]
    obtain b where b: "eventBlock payload eid (schedule st) = Inr b" by blast
    from eventBlock_flexible [OF flex b] obtain s where
      s: "placeFlexibleEvent payload (schedule st) = Inr (s, s + durationMs payload)"
        "b = \<lparr>bl_start = s, bl_end = s + durationMs payload, bl_event_id = eid,
          bl_type = Flexible, bl_chunk_index = None, bl_chunk_count = None\<rparr>" by blast
    with create_filter_blocks [OF eid b] show ?thesis
      by (auto simp: durationMs_def)
  qed
  have none: "mockCreateEvent payload st = (Inl RangeError, st)"
    if "\<not> blockEndValid payload (schedule st)"
    using that eid by (simp add: create_error eventBlock_invalid)
  have same: "mockCreateEvent (payload\<lparr>pl_can_split := split, pl_min_chunk_minutes := chunk\<rparr>) st =
     mockCreateEvent payload st"
    using eid by (simp add: mockCreateEvent_def eventBlock_ignores_split)
  from one none same show ?thesis by blast
qed

text \<open>
  Six splittable hours in the initial schedule, committed as one block, and a
  splittable event too long for a date, which is refused.
\<close>

theorem flexible_create_single_unmarked_block_witness:
  "pl_type splitPayload = Flexible \<and> pl_event_id splitPayload = Some ''big'' \<and>
   pl_can_split splitPayload = Some True \<and>
   blockEndValid splitPayload (schedule (createMockState 0)) \<and>
   placeFlexibleEvent splitPayload (schedule (createMockState 0)) = Inr (23400000, 45000000) \<and>
   filter (\<lambda>b. bl_event_id b = ''big'')
     (blocks (schedule (snd (mockCreateEvent splitPayload (createMockState 0))))) =
     [\<lparr>bl_start = 23400000, bl_end = 23400000 + pl_duration_minutes splitPayload * 60 * 1000,
       bl_event_id = ''big'', bl_type = Flexible, bl_chunk_index = None, bl_chunk_count = None\<rparr>] \<and>
   mockCreateEvent (splitPayload\<lparr>pl_can_split := Some False, pl_min_chunk_minutes := None\<rparr>)
     (createMockState 0) = mockCreateEvent splitPayload (createMockState 0) \<and>
   pl_type overflowFlexible = Flexible \<and> pl_event_id overflowFlexible = Some ''training'' \<and>
   pl_can_split overflowFlexible = Some True \<and>
   \<not> blockEndValid overflowFlexible (schedule (createMockState 0)) \<and>
   mockCreateEvent overflowFlexible (createMockState 0) = (Inl RangeError, createMockState 0)"
proof -
  have t: "pl_type splitPayload = Flexible" by (simp add: splitPayload_def)
  have p: "pl_event_id splitPayload = Some ''big''" by (simp add: splitPayload_def)
  have c: "pl_can_split splitPayload = Some True" by (simp add: splitPayload_def)
  have n: "''big'' \<noteq> []" by simp
  have v: "placeFlexibleEvent splitPayload (schedule (createMockState 0)) = Inr (23400000, 45000000)"
    by (simp add: splitPayload_def createMockState_def placeFlexibleEvent_def fallbackStart_def
        newDate_def inRange_def maxTime_def computeFreeWindows_def durationMs_def earliest_def
        latest_def hour_def Let_def)
  have ok: "blockEndValid splitPayload (schedule (createMockState 0))"
    using t v placeFlexibleEvent_valid [of splitPayload "schedule (createMockState 0)"]
    by (simp add: blockEndValid_def)
  have t': "pl_type overflowFlexible = Flexible" by (simp add: overflowFlexible_def)
  have p': "pl_event_id overflowFlexible = Some ''training''" by (simp add: overflowFlexible_def)
  have c': "pl_can_split overflowFlexible = Some True" by (simp add: overflowFlexible_def)
  have n': "''training'' \<noteq> []" by simp
  have v': "\<not> blockEndValid overflowFlexible (schedule (createMockState 0))"
    by (simp add: blockEndValid_def fitsWindow_def overflowFlexible_def createMockState_def
        computeFreeWindows_def fallbackStart_def newDate_def inRange_def maxTime_def
        durationMs_def earliest_def latest_def hour_def Let_def)
  from flexible_create_single_unmarked_block [OF t p n,
      where st = "createMockState 0" and split = "Some False" and chunk = None]
    flexible_create_single_unmarked_block [OF t' p' n',
      where st = "createMockState 0" and split = "Some False" and chunk = None]
    t p c ok v t' p' c' v'
  show ?thesis by auto
qed

text \<open>
  Claim C6 as stated fails: six splittable hours fit no single free window of the
  initial schedule, whose windows would take three pieces of two hours; the create
  commits one block from 14:30 to 20:30 without chunk markers.
\<close>

theorem split_not_carved_counterexample:
  "pl_type splitPayload = Flexible \<and> pl_can_split splitPayload = Some True \<and>
   pl_min_chunk_minutes splitPayload = Some 30 \<and> pl_duration_minutes splitPayload = 360 \<and>
   free_windows (schedule (createMockState 0)) =
     [\<lparr>fw_start = 0, fw_end = 7200000\<rparr>, \<lparr>fw_start = 10800000, fw_end = 18000000\<rparr>,
      \<lparr>fw_start = 23400000, fw_end = 43200000\<rparr>] \<and>
   blocks (schedule (snd (mockCreateEvent splitPayload (createMockState 0)))) =
     [\<lparr>bl_start = 7200000, bl_end = 10800000, bl_event_id = ''training'', bl_type = Fixed,
       bl_chunk_index = None, bl_chunk_count = None\<rparr>,
      \<lparr>bl_start = 18000000, bl_end = 23400000, bl_event_id = ''lecture'', bl_type = Fixed,
       bl_chunk_index = None, bl_chunk_count = None\<rparr>,
      \<lparr>bl_start = 23400000, bl_end = 45000000, bl_event_id = ''big'', bl_type = Flexible,
       bl_chunk_index = None, bl_chunk_count = None\<rparr>]"
  by (simp add: mockCreateEvent_def splitPayload_def createMockState_def eventBlock_def
      placeFlexibleEvent_def fallbackStart_def newDate_def inRange_def maxTime_def
      computeFreeWindows_def durationMs_def earliest_def latest_def hour_def Let_def)

section \<open>The proposal\<close>

text \<open>
  Claim C7, amended. The proposal leaves the state as it was. For a fixed candidate it
  returns no block and the free windows of the committed schedule. For a flexible
  candidate it returns the one block of the placement and the free windows of the
  committed schedule when the end of that block is a valid date, and throws a
  \<open>RangeError\<close>, returning nothing, when it is not.
\<close>

theorem mockProposal_pure:
  "snd (mockProposal payload st) = st \<and>
   (pl_type payload = Fixed \<longrightarrow>
      fst (mockProposal payload st) =
        Inr \<lparr>pv_blocks = [], pv_free_windows = free_windows (schedule st)\<rparr>) \<and>
   (pl_type payload = Flexible \<and> blockEndValid payload (schedule st) \<longrightarrow>
      (\<exists>s. placeFlexibleEvent payload (schedule st) = Inr (s, s + durationMs payload) \<and>
         fst (mockProposal payload st) =
           Inr \<lparr>pv_blocks =
                 [\<lparr>bl_start = s, bl_end = s + durationMs payload,
                   bl_event_id = (case pl_event_id payload of Some eid \<Rightarrow> eid | None \<Rightarrow> ''proposal''),
                   bl_type = Flexible, bl_chunk_index = None, bl_chunk_count = None\<rparr>],
               pv_free_windows = free_windows (schedule st)\<rparr>)) \<and>
   (pl_type payload = Flexible \<and> \<not> blockEndValid payload (schedule st) \<longrightarrow>
      fst (mockProposal payload st) = Inl RangeError)"
proof -
  have pure: "snd (mockProposal payload st) = st"
    by (simp add: mockProposal_def Let_def split: sum.splits)
  have fixed: "fst (mockProposal payload st) =
        Inr \<lparr>pv_blocks = [], pv_free_windows = free_windows (schedule st)\<rparr>"
    if "pl_type payload = Fixed"
    using that by (simp add: mockProposal_def Let_def)
  have valid: "\<exists>s. placeFlexibleEvent payload (schedule st) = Inr (s, s + durationMs payload) \<and>
         fst (mockProposal payload st) =
           Inr \<lparr>pv_blocks =
                 [\<lparr>bl_start = s, bl_end = s + durationMs payload,
                   bl_event_id = (case pl_event_id payload of Some eid \<Rightarrow> eid | None \<Rightarrow> ''proposal''),
                   bl_type = Flexible, bl_chunk_index = None, bl_chunk_count = None\<rparr>],
               pv_free_windows = free_windows (schedule st)\<rparr>"
    if flex: "pl_type payload = Flexible" and ok: "blockEndValid payload (schedule st)"
  proof -
    from flex ok placeFlexibleEvent_valid [of payload "schedule st"]
    obtain p where "placeFlexibleEvent payload (schedule st) = Inr p"
      by (auto simp: blockEndValid_def)
    with placeFlexibleEvent_duration [of payload "schedule st" "fst p" "snd p"]
    have p: "placeFlexibleEvent payload (schedule st) = Inr (fst p, fst p + durationMs payload)"
      by (cases p) auto
    then have "fst (mockProposal payload st) =
           Inr \<lparr>pv_blocks =
                 [\<lparr>bl_start = fst p, bl_end = fst p + durationMs payload,
                   bl_event_id = (case pl_event_id payload of Some eid \<Rightarrow> eid | None \<Rightarrow> ''proposal''),
                   bl_type = Flexible, bl_chunk_index = None, bl_chunk_count = None\<rparr>],
               pv_free_windows = free_windows (schedule st)\<rparr>"
      using flex by (simp add: mockProposal_def Let_def)
    with p show ?thesis by blast
  qed
  have invalid: "fst (mockProposal payload st) = Inl RangeError"
    if flex: "pl_type payload = Flexible" and bad: "\<not> blockEndValid payload (schedule st)"
  proof -
    from flex bad placeFlexibleEvent_valid [of payload "schedule st"]
    have "\<not> (\<exists>p. placeFlexibleEvent payload (schedule st) = Inr p)"
      by (simp add: blockEndValid_def)
    with placeFlexibleEvent_error [of payload "schedule st"]
    have "placeFlexibleEvent payload (schedule st) = Inl RangeError"
      by (cases "placeFlexibleEvent payload (schedule st)") auto
    with flex show ?thesis by (simp add: mockProposal_def Let_def)
  qed
  from pure fixed valid invalid show ?thesis by blast
qed

text \<open>
  The proposals, in the initial schedule, for a flexible hour, for a fixed hour and for
  a flexible event too long for a date.
\<close>

theorem mockProposal_pure_witness:
  "snd (mockProposal fittingPayload (createMockState 0)) = createMockState 0 \<and>
   pl_type fittingPayload = Flexible \<and>
   blockEndValid fittingPayload (schedule (createMockState 0)) \<and>
   fst (mockProposal fittingPayload (createMockState 0)) =
     Inr \<lparr>pv_blocks =
           [\<lparr>bl_start = 0, bl_end = 0 + durationMs fittingPayload,
             bl_event_id = (case pl_event_id fittingPayload of Some eid \<Rightarrow> eid | None \<Rightarrow> ''proposal''),
             bl_type = Flexible, bl_chunk_index = None, bl_chunk_count = None\<rparr>],
         pv_free_windows = free_windows (schedule (createMockState 0))\<rparr> \<and>
   pl_type fixedCandidate = Fixed \<and>
   fst (mockProposal fixedCandidate (createMockState 0)) =
     Inr \<lparr>pv_blocks = [], pv_free_windows = free_windows (schedule (createMockState 0))\<rparr> \<and>
   pl_type overflowFlexible = Flexible \<and>
   \<not> blockEndValid overflowFlexible (schedule (createMockState 0)) \<and>
   fst (mockProposal overflowFlexible (createMockState 0)) = Inl RangeError"
proof -
  have v: "placeFlexibleEvent fittingPayload (schedule (createMockState 0)) = Inr (0, 3600000)"
    by (simp add: fittingPayload_def createMockState_def placeFlexibleEvent_def newDate_def
        inRange_def maxTime_def computeFreeWindows_def durationMs_def earliest_def latest_def
        hour_def Let_def)
  have t: "pl_type fittingPayload = Flexible" by (simp add: fittingPayload_def)
  have ok: "blockEndValid fittingPayload (schedule (createMockState 0))"
    using t v placeFlexibleEvent_valid [of fittingPayload "schedule (createMockState 0)"]
    by (simp add: blockEndValid_def)
  have tf: "pl_type fixedCandidate = Fixed" by (simp add: fixedCandidate_def)
  have t': "pl_type overflowFlexible = Flexible" by (simp add: overflowFlexible_def)
  have v': "\<not> blockEndValid overflowFlexible (schedule (createMockState 0))"
    by (simp add: blockEndValid_def fitsWindow_def overflowFlexible_def createMockState_def
        computeFreeWindows_def fallbackStart_def newDate_def inRange_def maxTime_def
        durationMs_def earliest_def latest_def hour_def Let_def)
  from mockProposal_pure [of fittingPayload "createMockState 0"]
    mockProposal_pure [of fixedCandidate "createMockState 0"]
    mockProposal_pure [of overflowFlexible "createMockState 0"]
    v t ok tf t' v'
  show ?thesis by auto
qed

text \<open>
  Claim C7 as stated fails for a fixed candidate: the proposal for a fixed hour from
  15:00 returns an empty block list.
\<close>

theorem mockProposal_fixed_counterexample:
  "pl_type fixedCandidate = Fixed \<and> pl_start fixedCandidate = Some 25200000 \<and>
   pl_duration_minutes fixedCandidate = 60 \<and>
   fst (mockProposal fixedCandidate (createMockState 0)) =
     Inr \<lparr>pv_blocks = [],
       pv_free_windows =
         [\<lparr>fw_start = 0, fw_end = 7200000\<rparr>, \<lparr>fw_start = 10800000, fw_end = 18000000\<rparr>,
          \<lparr>fw_start = 23400000, fw_end = 43200000\<rparr>]\<rparr>"
  by (simp add: mockProposal_def fixedCandidate_def createMockState_def computeFreeWindows_def
      hour_def Let_def)

end
